theory Spec2Isabelle
  imports Complex_Main
begin

section \<open>Errors as values\<close>

text \<open>
  Every Python exception the modelled code can raise is a value of \<open>exn\<close>; a function
  that may raise returns \<open>exn + 'a\<close>, with \<open>Inl\<close> the exception. \<open>IvyException\<close> is
  the repository's own exception class; \<open>NativeError\<close> stands for whatever the wrapped
  numerical library raises; the remaining constructors are Python's built-in exceptions.
\<close>

datatype exn =
    IvyException string
  | NativeError string
  | ZeroDivisionError
  | ValueError string
  | IndexError

definition bind_exn :: "exn + 'a \<Rightarrow> ('a \<Rightarrow> exn + 'b) \<Rightarrow> exn + 'b" where
  "bind_exn m f = (case m of Inl e \<Rightarrow> Inl e | Inr v \<Rightarrow> f v)"

lemma bind_exn_Inl [simp]: "bind_exn (Inl e) f = Inl e"
  by (simp add: bind_exn_def)

lemma bind_exn_Inr [simp]: "bind_exn (Inr v) f = f v"
  by (simp add: bind_exn_def)

text \<open>
  Modelled from the spec: \<open>ivy.assertions.check_true\<close> is not among the sources. The
  caller's use (``asserts that data is already a native sparse array, raising with message
  "not a sparse array" otherwise'') fixes what it does: it raises an \<open>IvyException\<close>
  carrying the message when the expression is false and returns nothing otherwise.
\<close>

definition check_true :: "bool \<Rightarrow> string \<Rightarrow> exn + unit" where
  "check_true expression message =
     (if expression then Inr () else Inl (IvyException message))"


section \<open>Torch backend: sparse arrays\<close>

text \<open>File \<open>ivy/functional/backends/torch/experimental/sparse_array.py\<close>.\<close>

subsection \<open>The native library's interface\<close>

text \<open>The memory layouts a torch tensor can report through \<open>x.layout\<close>.\<close>

datatype layout =
    strided | sparse_coo | sparse_csr | sparse_csc | sparse_bsr | sparse_bsc | mkldnn

text \<open>
  Torch tensors are opaque values of type \<open>'x\<close>; index and value tensors have type
  \<open>'d\<close>, shapes type \<open>'s\<close>. The methods the module calls on a tensor are the fields
  of \<open>tensor_ops\<close>: \<open>x.layout\<close>, \<open>x.coalesce()\<close>, \<open>x.indices()\<close>,
  \<open>x.crow_indices()\<close>, \<open>x.col_indices()\<close>, \<open>x.ccol_indices()\<close>,
  \<open>x.row_indices()\<close>, \<open>x.values()\<close> and \<open>x.size()\<close>.
\<close>

record ('x, 'd, 's) tensor_ops =
  layout_of :: "'x \<Rightarrow> layout"
  coalesce :: "'x \<Rightarrow> 'x"
  indices :: "'x \<Rightarrow> 'd"
  crow_indices :: "'x \<Rightarrow> 'd"
  col_indices :: "'x \<Rightarrow> 'd"
  ccol_indices :: "'x \<Rightarrow> 'd"
  row_indices :: "'x \<Rightarrow> 'd"
  values_of :: "'x \<Rightarrow> 'd"
  size_of :: "'x \<Rightarrow> 's"

text \<open>
  The keyword arguments of \<open>native_sparse_array\<close> other than \<open>data\<close>; \<open>None\<close> is
  Python's \<open>None\<close>, the default of each.
\<close>

record ('d, 's) components =
  coo_indices :: "'d option"
  csr_crow_indices :: "'d option"
  csr_col_indices :: "'d option"
  csc_ccol_indices :: "'d option"
  csc_row_indices :: "'d option"
  bsc_ccol_indices :: "'d option"
  bsc_row_indices :: "'d option"
  bsr_crow_indices :: "'d option"
  bsr_col_indices :: "'d option"
  vals :: "'d option"
  dense_shape :: "'s option"

text \<open>
  What \<open>native_sparse_array\<close> imports and calls but does not define: the format
  recognisers and component checks of \<open>ivy.functional.ivy.experimental.sparse_array\<close>
  (not among the sources), the unified \<open>ivy.is_native_sparse_array\<close>, and torch's
  constructors. Each is a parameter and each may raise.
\<close>

record ('x, 'd, 's) sparse_env =
  is_data_not_indices_values_and_shape ::
    "'x option \<Rightarrow> ('d, 's) components \<Rightarrow> exn + bool"
  is_coo :: "('d, 's) components \<Rightarrow> exn + bool"
  is_csr :: "('d, 's) components \<Rightarrow> exn + bool"
  is_csc :: "('d, 's) components \<Rightarrow> exn + bool"
  is_bsc :: "('d, 's) components \<Rightarrow> exn + bool"
  is_bsr :: "('d, 's) components \<Rightarrow> exn + bool"
  verify_coo_components :: "'d option \<Rightarrow> 'd option \<Rightarrow> 's option \<Rightarrow> exn + unit"
  verify_csr_components ::
    "'d option \<Rightarrow> 'd option \<Rightarrow> 'd option \<Rightarrow> 's option \<Rightarrow> exn + unit"
  verify_csc_components ::
    "'d option \<Rightarrow> 'd option \<Rightarrow> 'd option \<Rightarrow> 's option \<Rightarrow> exn + unit"
  verify_bsc_components ::
    "'d option \<Rightarrow> 'd option \<Rightarrow> 'd option \<Rightarrow> 's option \<Rightarrow> exn + unit"
  verify_bsr_components ::
    "'d option \<Rightarrow> 'd option \<Rightarrow> 'd option \<Rightarrow> 's option \<Rightarrow> exn + unit"
  ivy_is_native_sparse_array :: "'x option \<Rightarrow> exn + bool"
  torch_sparse_coo_tensor :: "'d option \<Rightarrow> 'd option \<Rightarrow> 's option \<Rightarrow> exn + 'x"
  torch_sparse_csr_tensor ::
    "'d option \<Rightarrow> 'd option \<Rightarrow> 'd option \<Rightarrow> 's option \<Rightarrow> exn + 'x"
  torch_sparse_csc_tensor ::
    "'d option \<Rightarrow> 'd option \<Rightarrow> 'd option \<Rightarrow> 's option \<Rightarrow> exn + 'x"

subsection \<open>The module's functions\<close>

definition is_native_sparse_array :: "('x, 'd, 's) tensor_ops \<Rightarrow> 'x \<Rightarrow> bool" where
  "is_native_sparse_array T x =
     (layout_of T x \<in> set [sparse_coo, sparse_csr, sparse_csc])"

text \<open>
  The result is \<open>Inr (Some t)\<close> when the function returns the tensor \<open>t\<close>, and
  \<open>Inr None\<close> when it returns Python's \<open>None\<close>: by returning \<open>data\<close> that was
  \<open>None\<close>, or by reaching the end of its body without a \<open>return\<close>.
\<close>

definition native_sparse_array ::
  "('x, 'd, 's) sparse_env \<Rightarrow> 'x option \<Rightarrow> ('d, 's) components \<Rightarrow> exn + 'x option"
where
  "native_sparse_array E data c =
     bind_exn (is_data_not_indices_values_and_shape E data c) (\<lambda>b_data.
     if b_data then
       bind_exn (ivy_is_native_sparse_array E data) (\<lambda>ok.
       bind_exn (check_true ok ''not a sparse array'') (\<lambda>_.
       Inr data))
     else bind_exn (is_coo E c) (\<lambda>b_coo.
     if b_coo then
       bind_exn (verify_coo_components E (coo_indices c) (vals c) (dense_shape c)) (\<lambda>_.
       bind_exn (torch_sparse_coo_tensor E (coo_indices c) (vals c) (dense_shape c)) (\<lambda>t.
       Inr (Some t)))
     else bind_exn (is_csr E c) (\<lambda>b_csr.
     if b_csr then
       bind_exn (verify_csr_components E (csr_crow_indices c) (csr_col_indices c)
                   (vals c) (dense_shape c)) (\<lambda>_.
       bind_exn (torch_sparse_csr_tensor E (csr_crow_indices c) (csr_col_indices c)
                   (vals c) (dense_shape c)) (\<lambda>t.
       Inr (Some t)))
     else bind_exn (is_csc E c) (\<lambda>b_csc.
     if b_csc then
       bind_exn (verify_csc_components E (csc_ccol_indices c) (csc_row_indices c)
                   (vals c) (dense_shape c)) (\<lambda>_.
       bind_exn (torch_sparse_csc_tensor E (csc_ccol_indices c) (csc_row_indices c)
                   (vals c) (dense_shape c)) (\<lambda>t.
       Inr (Some t)))
     else bind_exn (is_bsc E c) (\<lambda>b_bsc.
     if b_bsc then
       bind_exn (verify_bsc_components E (bsc_ccol_indices c) (bsc_row_indices c)
                   (vals c) (dense_shape c)) (\<lambda>_.
       Inr None)
     else bind_exn (is_bsr E c) (\<lambda>b_bsr.
     if b_bsr then
       bind_exn (verify_bsr_components E (bsr_crow_indices c) (bsr_col_indices c)
                   (vals c) (dense_shape c)) (\<lambda>_.
       Inr None)
     else Inr None))))))"

text \<open>The returned Python dict is an association list in insertion order.\<close>

definition native_sparse_array_to_indices_values_and_shape ::
  "('x, 'd, 's) tensor_ops \<Rightarrow> 'x \<Rightarrow> exn + ((string \<times> 'd) list \<times> 'd \<times> 's)"
where
  "native_sparse_array_to_indices_values_and_shape T x =
     (if layout_of T x = sparse_coo then
        (let x = coalesce T x
         in Inr ([(''coo_indices'', indices T x)], values_of T x, size_of T x))
      else if layout_of T x = sparse_csr then
        Inr ([(''csr_crow_indices'', crow_indices T x),
              (''csr_col_indices'', col_indices T x)], values_of T x, size_of T x)
      else if layout_of T x = sparse_csc then
        Inr ([(''csc_ccol_indices'', ccol_indices T x),
              (''csc_row_indices'', row_indices T x)], values_of T x, size_of T x)
      else if layout_of T x = sparse_bsc then
        Inr ([(''bsc_ccol_indices'', ccol_indices T x),
              (''bsc_row_indices'', row_indices T x)], values_of T x, size_of T x)
      else if layout_of T x = sparse_bsr then
        Inr ([(''bsr_crow_indices'', crow_indices T x),
              (''bsr_col_indices'', col_indices T x)], values_of T x, size_of T x)
      else Inl (IvyException ''not a sparse COO/CSR/CSC/BSC/BSR Tensor''))"


subsection \<open>A concrete instance of the interfaces\<close>

text \<open>
  To run the functions on concrete inputs: a tensor is its layout, two index lists, a value
  list and a shape; the recognisers look at which keyword arguments are present, the
  component checks compare lengths, and the constructors store what they are given.
\<close>

type_synonym sample_tensor = "layout \<times> int list \<times> int list \<times> int list \<times> nat list"

definition sample_ops :: "(sample_tensor, int list, nat list) tensor_ops" where
  "sample_ops =
     \<lparr> layout_of = (\<lambda>(l, i, j, v, s). l),
       coalesce = (\<lambda>(l, i, j, v, s). (l, sort i, j, v, s)),
       indices = (\<lambda>(l, i, j, v, s). i),
       crow_indices = (\<lambda>(l, i, j, v, s). i),
       col_indices = (\<lambda>(l, i, j, v, s). j),
       ccol_indices = (\<lambda>(l, i, j, v, s). i),
       row_indices = (\<lambda>(l, i, j, v, s). j),
       values_of = (\<lambda>(l, i, j, v, s). v),
       size_of = (\<lambda>(l, i, j, v, s). s) \<rparr>"

definition sample_verify ::
  "int list option \<Rightarrow> int list option \<Rightarrow> int list option \<Rightarrow> nat list option \<Rightarrow> exn + unit"
where
  "sample_verify i j v s =
     (case (j, v) of
        (Some js, Some vs) \<Rightarrow>
          if length js = length vs then Inr ()
          else Inl (IvyException ''components do not match'')
      | _ \<Rightarrow> Inl (IvyException ''missing component''))"

definition sample_build ::
  "layout \<Rightarrow> int list option \<Rightarrow> int list option \<Rightarrow> int list option \<Rightarrow> nat list option
     \<Rightarrow> exn + sample_tensor"
where
  "sample_build l i j v s =
     (case (i, j, v, s) of
        (Some is, Some js, Some vs, Some sh) \<Rightarrow> Inr (l, is, js, vs, sh)
      | _ \<Rightarrow> Inl (NativeError ''missing argument''))"

definition sample_env :: "(sample_tensor, int list, nat list) sparse_env" where
  "sample_env =
     \<lparr> is_data_not_indices_values_and_shape = (\<lambda>d c. Inr (d \<noteq> None)),
       is_coo = (\<lambda>c. Inr (coo_indices c \<noteq> None)),
       is_csr = (\<lambda>c. Inr (csr_crow_indices c \<noteq> None \<and> csr_col_indices c \<noteq> None)),
       is_csc = (\<lambda>c. Inr (csc_ccol_indices c \<noteq> None \<and> csc_row_indices c \<noteq> None)),
       is_bsc = (\<lambda>c. Inr (bsc_ccol_indices c \<noteq> None \<and> bsc_row_indices c \<noteq> None)),
       is_bsr = (\<lambda>c. Inr (bsr_crow_indices c \<noteq> None \<and> bsr_col_indices c \<noteq> None)),
       verify_coo_components = (\<lambda>i v s. sample_verify i i v s),
       verify_csr_components = sample_verify,
       verify_csc_components = sample_verify,
       verify_bsc_components = sample_verify,
       verify_bsr_components = sample_verify,
       ivy_is_native_sparse_array =
         (\<lambda>d. case d of None \<Rightarrow> Inl (NativeError ''no layout'')
               | Some x \<Rightarrow> Inr (is_native_sparse_array sample_ops x)),
       torch_sparse_coo_tensor = (\<lambda>i v s. sample_build sparse_coo i (Some []) v s),
       torch_sparse_csr_tensor = sample_build sparse_csr,
       torch_sparse_csc_tensor = sample_build sparse_csc \<rparr>"

definition no_components :: "(int list, nat list) components" where
  "no_components =
     \<lparr> coo_indices = None, csr_crow_indices = None, csr_col_indices = None,
       csc_ccol_indices = None, csc_row_indices = None,
       bsc_ccol_indices = None, bsc_row_indices = None,
       bsr_crow_indices = None, bsr_col_indices = None,
       vals = None, dense_shape = None \<rparr>"

definition sample_coo :: "(int list, nat list) components" where
  "sample_coo = no_components
     \<lparr> coo_indices := Some [0, 1], vals := Some [7, 9], dense_shape := Some [2] \<rparr>"

definition sample_bsc :: "(int list, nat list) components" where
  "sample_bsc = no_components
     \<lparr> bsc_ccol_indices := Some [0, 1], bsc_row_indices := Some [0],
       vals := Some [5], dense_shape := Some [1, 1] \<rparr>"

definition sample_bsr :: "(int list, nat list) components" where
  "sample_bsr = no_components
     \<lparr> bsr_crow_indices := Some [0, 1], bsr_col_indices := Some [0],
       vals := Some [5], dense_shape := Some [1, 1] \<rparr>"

definition sample_bad_csr :: "(int list, nat list) components" where
  "sample_bad_csr = no_components
     \<lparr> csr_crow_indices := Some [0, 1], csr_col_indices := Some [0, 0],
       vals := Some [5], dense_shape := Some [1, 1] \<rparr>"

lemmas sample_defs =
  sample_env_def sample_ops_def sample_verify_def sample_build_def no_components_def
  sample_coo_def sample_bsc_def sample_bsr_def sample_bad_csr_def


section \<open>JAX backend: reductions\<close>

text \<open>
  File \<open>ivy/functional/backends/jax/utility.py\<close>. An axis specification is an int, a
  tuple of ints or a list of ints; \<open>None\<close> is Python's \<open>None\<close>. The two functions of
  \<open>jax.numpy\<close> that the module calls are parameters and may raise. The module's \<open>all\<close>
  and \<open>any\<close> are \<open>all_jax\<close> and \<open>any_jax\<close> here.
\<close>

datatype axis_spec = AxisInt int | AxisTuple "int list" | AxisList "int list"

record 'a jnp =
  jnp_all :: "'a \<Rightarrow> axis_spec option \<Rightarrow> bool \<Rightarrow> exn + 'a"
  jnp_any :: "'a \<Rightarrow> axis_spec option \<Rightarrow> bool \<Rightarrow> exn + 'a"

definition all_jax :: "'a jnp \<Rightarrow> 'a \<Rightarrow> axis_spec option \<Rightarrow> bool \<Rightarrow> exn + 'a" where
  "all_jax J x axis keepdims =
     bind_exn (jnp_all J x axis keepdims) (\<lambda>ret. Inr ret)"

definition any_jax :: "'a jnp \<Rightarrow> 'a \<Rightarrow> axis_spec option \<Rightarrow> bool \<Rightarrow> exn + 'a" where
  "any_jax J x axis keepdims =
     bind_exn (jnp_any J x axis keepdims) (\<lambda>ret. Inr ret)"


section \<open>Unified API: convolutions\<close>

text \<open>
  File \<open>ivy/functional/ivy/layers.py\<close>. A backend module exposes one function for each
  name of the unified API; arrays have type \<open>'a\<close>, strides and dilations type \<open>'s\<close>,
  paddings type \<open>'p\<close>, output shapes type \<open>'o\<close>. \<open>current_framework\<close>, imported from
  \<open>ivy.framework_handler\<close> (not among the sources), selects the module for an array or
  raises; it is a parameter \<open>cf\<close> of every function below.
\<close>

record ('a, 's, 'p, 'o) backend =
  backend_conv1d :: "'a \<Rightarrow> 'a \<Rightarrow> 's \<Rightarrow> 'p \<Rightarrow> string \<Rightarrow> 's \<Rightarrow> exn + 'a"
  backend_conv1d_transpose ::
    "'a \<Rightarrow> 'a \<Rightarrow> 's \<Rightarrow> 'p \<Rightarrow> 'o option \<Rightarrow> string \<Rightarrow> 's \<Rightarrow> exn + 'a"
  backend_conv2d :: "'a \<Rightarrow> 'a \<Rightarrow> 's \<Rightarrow> 'p \<Rightarrow> string \<Rightarrow> 's \<Rightarrow> exn + 'a"
  backend_conv2d_transpose ::
    "'a \<Rightarrow> 'a \<Rightarrow> 's \<Rightarrow> 'p \<Rightarrow> 'o option \<Rightarrow> string \<Rightarrow> 's \<Rightarrow> exn + 'a"
  backend_depthwise_conv2d :: "'a \<Rightarrow> 'a \<Rightarrow> 's \<Rightarrow> 'p \<Rightarrow> string \<Rightarrow> 's \<Rightarrow> exn + 'a"
  backend_conv3d :: "'a \<Rightarrow> 'a \<Rightarrow> 's \<Rightarrow> 'p \<Rightarrow> string \<Rightarrow> 's \<Rightarrow> exn + 'a"
  backend_conv3d_transpose ::
    "'a \<Rightarrow> 'a \<Rightarrow> 's \<Rightarrow> 'p \<Rightarrow> 'o option \<Rightarrow> string \<Rightarrow> 's \<Rightarrow> exn + 'a"

type_synonym ('a, 's, 'p, 'o) selector = "'a \<Rightarrow> exn + ('a, 's, 'p, 'o) backend"

definition conv1d ::
  "('a, 's, 'p, 'o) selector \<Rightarrow> 'a \<Rightarrow> 'a \<Rightarrow> 's \<Rightarrow> 'p \<Rightarrow> string \<Rightarrow> 's \<Rightarrow> exn + 'a" where
  "conv1d cf x filters strides padding data_format dilations =
     bind_exn (cf x) (\<lambda>m.
       backend_conv1d m x filters strides padding data_format dilations)"

definition conv1d_transpose ::
  "('a, 's, 'p, 'o) selector \<Rightarrow> 'a \<Rightarrow> 'a \<Rightarrow> 's \<Rightarrow> 'p \<Rightarrow> 'o option \<Rightarrow> string \<Rightarrow> 's
     \<Rightarrow> exn + 'a" where
  "conv1d_transpose cf x filters strides padding output_shape data_format dilations =
     bind_exn (cf x) (\<lambda>m.
       backend_conv1d_transpose m x filters strides padding output_shape data_format
         dilations)"

definition conv2d ::
  "('a, 's, 'p, 'o) selector \<Rightarrow> 'a \<Rightarrow> 'a \<Rightarrow> 's \<Rightarrow> 'p \<Rightarrow> string \<Rightarrow> 's \<Rightarrow> exn + 'a" where
  "conv2d cf x filters strides padding data_format dilations =
     bind_exn (cf x) (\<lambda>m.
       backend_conv2d m x filters strides padding data_format dilations)"

definition conv2d_transpose ::
  "('a, 's, 'p, 'o) selector \<Rightarrow> 'a \<Rightarrow> 'a \<Rightarrow> 's \<Rightarrow> 'p \<Rightarrow> 'o option \<Rightarrow> string \<Rightarrow> 's
     \<Rightarrow> exn + 'a" where
  "conv2d_transpose cf x filters strides padding output_shape data_format dilations =
     bind_exn (cf x) (\<lambda>m.
       backend_conv2d_transpose m x filters strides padding output_shape data_format
         dilations)"

definition depthwise_conv2d ::
  "('a, 's, 'p, 'o) selector \<Rightarrow> 'a \<Rightarrow> 'a \<Rightarrow> 's \<Rightarrow> 'p \<Rightarrow> string \<Rightarrow> 's \<Rightarrow> exn + 'a" where
  "depthwise_conv2d cf x filters strides padding data_format dilations =
     bind_exn (cf x) (\<lambda>m.
       backend_depthwise_conv2d m x filters strides padding data_format dilations)"

definition conv3d ::
  "('a, 's, 'p, 'o) selector \<Rightarrow> 'a \<Rightarrow> 'a \<Rightarrow> 's \<Rightarrow> 'p \<Rightarrow> string \<Rightarrow> 's \<Rightarrow> exn + 'a" where
  "conv3d cf x filters strides padding data_format dilations =
     bind_exn (cf x) (\<lambda>m.
       backend_conv3d m x filters strides padding data_format dilations)"

definition conv3d_transpose ::
  "('a, 's, 'p, 'o) selector \<Rightarrow> 'a \<Rightarrow> 'a \<Rightarrow> 's \<Rightarrow> 'p \<Rightarrow> 'o option \<Rightarrow> string \<Rightarrow> 's
     \<Rightarrow> exn + 'a" where
  "conv3d_transpose cf x filters strides padding output_shape data_format dilations =
     bind_exn (cf x) (\<lambda>m.
       backend_conv3d_transpose m x filters strides padding output_shape data_format
         dilations)"

text \<open>
  A concrete selector, to run the dispatch on concrete inputs: arrays are lists of integers;
  the module chosen for an array tags its results with the name of the function called, and
  no module is found for the empty array.
\<close>

definition sample_backend :: "(int list, int, string, int list) backend" where
  "sample_backend =
     \<lparr> backend_conv1d = (\<lambda>x f s p d dl. Inr (1 # s # dl # x @ f)),
       backend_conv1d_transpose = (\<lambda>x f s p os d dl. Inr (2 # s # dl # x @ f)),
       backend_conv2d = (\<lambda>x f s p d dl. Inr (3 # s # dl # x @ f)),
       backend_conv2d_transpose = (\<lambda>x f s p os d dl. Inr (4 # s # dl # x @ f)),
       backend_depthwise_conv2d = (\<lambda>x f s p d dl. Inr (5 # s # dl # x @ f)),
       backend_conv3d =
         (\<lambda>x f s p d dl. if d = ''NDHWC'' then Inr (6 # s # dl # x @ f)
                          else Inl (NativeError ''data format'')),
       backend_conv3d_transpose = (\<lambda>x f s p os d dl. Inr (7 # s # dl # x @ f)) \<rparr>"

definition sample_selector :: "(int list, int, string, int list) selector" where
  "sample_selector x =
     (if x = [] then Inl (IvyException ''no backend'') else Inr sample_backend)"


section \<open>Arrays of the reference semantics\<close>

text \<open>
  The composite functions of \<open>layers.py\<close> are written against the unified API, whose
  primitives live in other modules and in the native libraries. To state what the
  composites compute, arrays are given a reference representation: a shape and the entries
  in row-major order. Entries are real numbers, so rounding is left out; a boolean array has
  entries of type \<open>bool\<close>.
\<close>

record 'a ndarray =
  shape :: "nat list"
  elems :: "'a list"

definition well_shaped :: "'a ndarray \<Rightarrow> bool" where
  "well_shaped a = (length (elems a) = prod_list (shape a))"

text \<open>All multi-indices of a shape, in row-major order, and the position of one of them.\<close>

fun multi_indices :: "nat list \<Rightarrow> nat list list" where
  "multi_indices [] = [[]]"
| "multi_indices (n # ns) = concat (map (\<lambda>i. map ((#) i) (multi_indices ns)) [0..<n])"

fun flat_index :: "nat list \<Rightarrow> nat list \<Rightarrow> nat" where
  "flat_index (n # ns) (i # js) = i * prod_list ns + flat_index ns js"
| "flat_index _ _ = 0"

definition valid :: "nat list \<Rightarrow> nat list \<Rightarrow> bool" where
  "valid sh idx = list_all2 (<) idx sh"

text \<open>The array of shape \<open>sh\<close> whose entry at \<open>idx\<close> is \<open>g idx\<close>, and reading an entry.\<close>

definition tab :: "nat list \<Rightarrow> (nat list \<Rightarrow> 'a) \<Rightarrow> 'a ndarray" where
  "tab sh g = \<lparr> shape = sh, elems = map g (multi_indices sh) \<rparr>"

definition entry :: "'a ndarray \<Rightarrow> nat list \<Rightarrow> 'a" where
  "entry a idx = elems a ! flat_index (shape a) idx"


section \<open>Unified API: dropout, attention and the LSTM update\<close>

text \<open>
  File \<open>ivy/functional/ivy/layers.py\<close>. The three functions call primitives of the
  unified API (\<open>ivy.where\<close>, \<open>ivy.einsum\<close>, \<open>ivy.matmul\<close>, ...) and use Python's
  operators on arrays (\<open><\<close>, unary \<open>-\<close>, \<open>*\<close>, \<open>+\<close>). None of these is defined in
  the sources, so they are the fields of \<open>ivy_api\<close>: numeric arrays have type \<open>'t\<close>,
  boolean arrays type \<open>'m\<close>, and every call may raise. \<open>shape_of\<close> is \<open>x.shape\<close>.
  Two parameters are renamed, their names being taken: \<open>mask\<close> is \<open>attn_mask\<close> and
  \<open>kernel\<close> is \<open>input_kernel\<close>.
  Each function takes the record of primitives as its first argument.
\<close>

datatype dtype = float16 | float32 | float64 | other_dtype string

record ('t, 'm) ivy_api =
  shape_of :: "'t \<Rightarrow> nat list"
  ivy_dev :: "'t \<Rightarrow> string"
  ivy_dtype :: "'t \<Rightarrow> dtype"
  ivy_random_uniform :: "nat list \<Rightarrow> string \<Rightarrow> exn + 't"
  ivy_zeros_like :: "'t \<Rightarrow> exn + 't"
  ivy_ones_like :: "'t \<Rightarrow> exn + 't"
  ivy_where :: "'m \<Rightarrow> 't \<Rightarrow> 't \<Rightarrow> exn + 't"
  ivy_logical_not :: "'m \<Rightarrow> exn + 'm"
  ivy_einsum :: "string \<Rightarrow> 't \<Rightarrow> 't \<Rightarrow> exn + 't"
  ivy_softmax :: "'t \<Rightarrow> int \<Rightarrow> exn + 't"
  ivy_reshape :: "'t \<Rightarrow> int list \<Rightarrow> exn + 't"
  ivy_matmul :: "'t \<Rightarrow> 't \<Rightarrow> exn + 't"
  ivy_split :: "'t \<Rightarrow> nat \<Rightarrow> int \<Rightarrow> exn + 't list"
  ivy_unstack :: "'t \<Rightarrow> int \<Rightarrow> exn + 't list"
  ivy_sigmoid :: "'t \<Rightarrow> exn + 't"
  ivy_tanh :: "'t \<Rightarrow> exn + 't"
  ivy_expand_dims :: "'t \<Rightarrow> int \<Rightarrow> exn + 't"
  ivy_concat :: "'t list \<Rightarrow> int \<Rightarrow> exn + 't"
  array_lt :: "'t \<Rightarrow> real \<Rightarrow> exn + 'm"
  array_neg :: "'t \<Rightarrow> exn + 't"
  array_mul_scalar :: "'t \<Rightarrow> real \<Rightarrow> exn + 't"
  array_add :: "'t \<Rightarrow> 't \<Rightarrow> exn + 't"
  array_add_scalar :: "'t \<Rightarrow> real \<Rightarrow> exn + 't"
  array_mul :: "'t \<Rightarrow> 't \<Rightarrow> exn + 't"

text \<open>Python's \<open>a / b\<close> on numbers.\<close>

definition py_truediv :: "real \<Rightarrow> real \<Rightarrow> exn + real" where
  "py_truediv a b = (if b = 0 then Inl ZeroDivisionError else Inr (a / b))"

text \<open>
  \<open>np.finfo(np.dtype(d)).max\<close>: the largest finite value of a floating-point type;
  \<open>np.finfo\<close> raises for a type that is not inexact.
\<close>

definition np_finfo_max :: "dtype \<Rightarrow> exn + real" where
  "np_finfo_max dt =
     (case dt of
        float16 \<Rightarrow> Inr 65504
      | float32 \<Rightarrow> Inr ((2 - 1 / 2 ^ 23) * 2 ^ 127)
      | float64 \<Rightarrow> Inr ((2 - 1 / 2 ^ 52) * 2 ^ 1023)
      | other_dtype n \<Rightarrow> Inl (ValueError ''data type not inexact''))"

text \<open>
  \<open>dropout(x, prob, scale=True)\<close>. The arguments of \<open>ivy.where\<close> are evaluated from
  left to right, then the scaling factor \<open>1 / (1 - prob)\<close> is computed by Python.
\<close>

definition dropout :: "('t, 'm) ivy_api \<Rightarrow> 't \<Rightarrow> real \<Rightarrow> bool \<Rightarrow> exn + 't" where
  "dropout A x prob scale =
     bind_exn (ivy_random_uniform A (shape_of A x) (ivy_dev A x)) (\<lambda>u.
     bind_exn (array_lt A u prob) (\<lambda>c.
     bind_exn (ivy_zeros_like A x) (\<lambda>z.
     bind_exn (ivy_where A c z x) (\<lambda>x.
     if scale then
       bind_exn (py_truediv 1 (1 - prob)) (\<lambda>k. array_mul_scalar A x k)
     else Inr x))))"

text \<open>
  \<open>scaled_dot_product_attention(q, k, v, scale, mask=None)\<close>; \<open>ivy.exists(mask)\<close> is
  \<open>mask is not None\<close>.
\<close>

definition scaled_dot_product_attention ::
  "('t, 'm) ivy_api \<Rightarrow> 't \<Rightarrow> 't \<Rightarrow> 't \<Rightarrow> real \<Rightarrow> 'm option \<Rightarrow> exn + 't" where
  "scaled_dot_product_attention A q k v scale attn_mask =
     bind_exn (ivy_einsum A ''... q f, ... k f -> ... q k'' q k) (\<lambda>qk.
     bind_exn (array_mul_scalar A qk scale) (\<lambda>sim.
     bind_exn
       (case attn_mask of
          None \<Rightarrow> Inr sim
        | Some m \<Rightarrow>
            bind_exn (ivy_logical_not A m) (\<lambda>not_mask.
            bind_exn (ivy_ones_like A sim) (\<lambda>ones.
            bind_exn (array_neg A ones) (\<lambda>neg_ones.
            bind_exn (np_finfo_max (ivy_dtype A sim)) (\<lambda>fmax.
            bind_exn (array_mul_scalar A neg_ones fmax) (\<lambda>fill.
            ivy_where A not_mask fill sim)))))) (\<lambda>sim.
     bind_exn (ivy_softmax A sim (- 1)) (\<lambda>attn.
     ivy_einsum A ''... q k, ... k f -> ... q f'' attn v))))"

text \<open>
  \<open>lstm_update\<close> in three parts. \<open>lstm_inputs\<close> is the code before the loop: it
  returns the list the \<open>for\<close> statement iterates over, the \<open>zip\<close> of the four unstacked
  input projections. \<open>lstm_loop\<close> is the loop: one equation for the exhausted iterator,
  one for an iteration, whose body follows the source line by line; the state is
  \<open>(ht, ct, hts_list)\<close>. \<open>lstm_update\<close> runs both and concatenates.
\<close>

type_synonym 't lstm_state = "'t \<times> 't \<times> 't list"

fun lstm_loop ::
  "('t, 'm) ivy_api \<Rightarrow> 't \<Rightarrow> 't option \<Rightarrow> ('t \<times> 't \<times> 't \<times> 't) list \<Rightarrow> 't lstm_state
     \<Rightarrow> exn + 't lstm_state" where
  "lstm_loop A Wh recurrent_bias [] (ht, ct, hts_list) = Inr (ht, ct, hts_list)"
| "lstm_loop A Wh recurrent_bias ((Wii_xt, Wif_xt, Wig_xt, Wio_xt) # rest) (ht, ct, hts_list) =
     (let htm1 = ht; ctm1 = ct in
      bind_exn (ivy_matmul A htm1 Wh) (\<lambda>m.
      bind_exn (case recurrent_bias of
                  Some rb \<Rightarrow> array_add A m rb
                | None \<Rightarrow> array_add_scalar A m 0) (\<lambda>Wh_htm1.
      bind_exn (ivy_split A Wh_htm1 4 (- 1)) (\<lambda>parts.
      case parts of
        [Whi_htm1, Whf_htm1, Whg_htm1, Who_htm1] \<Rightarrow>
          bind_exn (array_add A Wii_xt Whi_htm1) (\<lambda>ai.
          bind_exn (ivy_sigmoid A ai) (\<lambda>it.
          bind_exn (array_add A Wif_xt Whf_htm1) (\<lambda>af.
          bind_exn (ivy_sigmoid A af) (\<lambda>ft.
          bind_exn (array_add A Wig_xt Whg_htm1) (\<lambda>ag.
          bind_exn (ivy_tanh A ag) (\<lambda>gt.
          bind_exn (array_add A Wio_xt Who_htm1) (\<lambda>ao.
          bind_exn (ivy_sigmoid A ao) (\<lambda>ot.
          bind_exn (array_mul A ft ctm1) (\<lambda>fc.
          bind_exn (array_mul A it gt) (\<lambda>ig.
          bind_exn (array_add A fc ig) (\<lambda>ct.
          bind_exn (ivy_tanh A ct) (\<lambda>tc.
          bind_exn (array_mul A ot tc) (\<lambda>ht.
          bind_exn (ivy_expand_dims A ht (- 2)) (\<lambda>e.
          lstm_loop A Wh recurrent_bias rest (ht, ct, hts_list @ [e])))))))))))))))
      | _ \<Rightarrow> Inl (ValueError ''wrong number of values to unpack'')))))"

definition lstm_inputs ::
  "('t, 'm) ivy_api \<Rightarrow> 't \<Rightarrow> 't \<Rightarrow> 't option \<Rightarrow> exn + ('t \<times> 't \<times> 't \<times> 't) list" where
  "lstm_inputs A x input_kernel bias =
     (let x_shape = shape_of A x;
          batch_shape = take (length x_shape - 2) x_shape
      in
      if length x_shape < 2 then Inl IndexError
      else
        let timesteps = x_shape ! (length x_shape - 2);
            input_channels = x_shape ! (length x_shape - 1)
        in
        bind_exn (ivy_reshape A x [- 1, int input_channels]) (\<lambda>x_flat.
        let Wi = input_kernel in
        bind_exn (ivy_matmul A x_flat Wi) (\<lambda>m.
        bind_exn (case bias of
                    Some b \<Rightarrow> array_add A m b
                  | None \<Rightarrow> array_add_scalar A m 0) (\<lambda>s.
        bind_exn (ivy_reshape A s (map int batch_shape @ [int timesteps, - 1])) (\<lambda>Wi_x.
        bind_exn (ivy_split A Wi_x 4 (- 1)) (\<lambda>parts.
        case parts of
          [Wii_x, Wif_x, Wig_x, Wio_x] \<Rightarrow>
            bind_exn (ivy_unstack A Wii_x (- 2)) (\<lambda>xs_i.
            bind_exn (ivy_unstack A Wif_x (- 2)) (\<lambda>xs_f.
            bind_exn (ivy_unstack A Wig_x (- 2)) (\<lambda>xs_g.
            bind_exn (ivy_unstack A Wio_x (- 2)) (\<lambda>xs_o.
            Inr (zip xs_i (zip xs_f (zip xs_g xs_o)))))))
        | _ \<Rightarrow> Inl (ValueError ''wrong number of values to unpack'')))))))"

definition lstm_update ::
  "('t, 'm) ivy_api \<Rightarrow> 't \<Rightarrow> 't \<Rightarrow> 't \<Rightarrow> 't \<Rightarrow> 't \<Rightarrow> 't option \<Rightarrow> 't option
     \<Rightarrow> exn + ('t \<times> 't)" where
  "lstm_update A x init_h init_c input_kernel recurrent_kernel bias recurrent_bias =
     bind_exn (lstm_inputs A x input_kernel bias) (\<lambda>slices.
     let Wh = recurrent_kernel; ht = init_h; ct = init_c; hts_list = [] in
     bind_exn (lstm_loop A Wh recurrent_bias slices (ht, ct, hts_list)) (\<lambda>(ht, ct, hts_list).
     bind_exn (ivy_concat A hts_list (- 2)) (\<lambda>hts.
     Inr (hts, ct))))"



section \<open>Reference semantics of the primitives\<close>

text \<open>
  Modelled from the spec: the primitives of the unified API and the native libraries they
  forward to are not among the sources, and the spec says of them only that each is ``a thin
  pass-through to the equivalent call in the selected native numerical library''. The
  reference backend \<open>ref\<close> gives each primitive the meaning its native counterpart
  documents (NumPy's \<open>reshape\<close>, \<open>matmul\<close>, \<open>split\<close>, \<open>concatenate\<close>, \<open>where\<close>,
  \<open>einsum\<close>, ...), over arrays of reals: the shape of the result, and each entry of the
  result in terms of the entries of the operands. Binary operations are defined for operands
  of one shape, and adding a vector to an array whose last axis has the vector's length;
  \<open>matmul\<close> for a stack of matrices times a matrix; \<open>einsum\<close> for the two equations
  the code uses; outside these cases the reference backend raises. \<open>rng\<close> is the drawing of
  samples by \<open>random_uniform\<close>, \<open>dt\<close> the dtype of the arrays.
\<close>

definition norm_axis :: "nat \<Rightarrow> int \<Rightarrow> nat option" where
  "norm_axis r axis =
     (if 0 \<le> axis \<and> axis < int r then Some (nat axis)
      else if - int r \<le> axis \<and> axis < 0 then Some (nat (axis + int r))
      else None)"

definition pointwise :: "('a \<Rightarrow> 'b) \<Rightarrow> 'a ndarray \<Rightarrow> 'b ndarray" where
  "pointwise f a = tab (shape a) (\<lambda>idx. f (entry a idx))"

definition pointwise2 ::
  "('a \<Rightarrow> 'b \<Rightarrow> 'c) \<Rightarrow> 'a ndarray \<Rightarrow> 'b ndarray \<Rightarrow> exn + 'c ndarray" where
  "pointwise2 f a b =
     (if shape a = shape b then Inr (tab (shape a) (\<lambda>idx. f (entry a idx) (entry b idx)))
      else Inl (NativeError ''operands could not be broadcast together''))"

definition ref_random_uniform ::
  "(nat list \<Rightarrow> real list) \<Rightarrow> nat list \<Rightarrow> string \<Rightarrow> exn + real ndarray" where
  "ref_random_uniform rng sh device = Inr \<lparr> shape = sh, elems = rng sh \<rparr>"

definition ref_where ::
  "bool ndarray \<Rightarrow> real ndarray \<Rightarrow> real ndarray \<Rightarrow> exn + real ndarray" where
  "ref_where c a b =
     (if shape c = shape a \<and> shape a = shape b
      then Inr (tab (shape a) (\<lambda>idx. if entry c idx then entry a idx else entry b idx))
      else Inl (NativeError ''operands could not be broadcast together''))"

definition ref_einsum :: "string \<Rightarrow> real ndarray \<Rightarrow> real ndarray \<Rightarrow> exn + real ndarray" where
  "ref_einsum equation a b =
     (let r = length (shape a); bs = take (r - 2) (shape a) in
      if equation = ''... q f, ... k f -> ... q k'' then
        if 2 \<le> r \<and> length (shape b) = r \<and> take (r - 2) (shape b) = bs
           \<and> shape a ! (r - 1) = shape b ! (r - 1)
        then Inr (tab (bs @ [shape a ! (r - 2), shape b ! (r - 2)])
               (\<lambda>idx. let bi = take (r - 2) idx; i = idx ! (r - 2); j = idx ! (r - 1)
                       in \<Sum>f<shape a ! (r - 1). entry a (bi @ [i, f]) * entry b (bi @ [j, f])))
        else Inl (NativeError ''einsum operands do not match the equation'')
      else if equation = ''... q k, ... k f -> ... q f'' then
        if 2 \<le> r \<and> length (shape b) = r \<and> take (r - 2) (shape b) = bs
           \<and> shape a ! (r - 1) = shape b ! (r - 2)
        then Inr (tab (bs @ [shape a ! (r - 2), shape b ! (r - 1)])
               (\<lambda>idx. let bi = take (r - 2) idx; i = idx ! (r - 2); f = idx ! (r - 1)
                       in \<Sum>j<shape a ! (r - 1). entry a (bi @ [i, j]) * entry b (bi @ [j, f])))
        else Inl (NativeError ''einsum operands do not match the equation'')
      else Inl (NativeError ''einsum equation outside the reference semantics''))"

definition ref_softmax :: "real ndarray \<Rightarrow> int \<Rightarrow> exn + real ndarray" where
  "ref_softmax x axis =
     (case norm_axis (length (shape x)) axis of
        None \<Rightarrow> Inl (NativeError ''axis out of range'')
      | Some ax \<Rightarrow>
          Inr (tab (shape x)
            (\<lambda>idx. exp (entry x idx) / (\<Sum>j<shape x ! ax. exp (entry x (idx[ax := j]))))))"

definition ref_reshape :: "real ndarray \<Rightarrow> int list \<Rightarrow> exn + real ndarray" where
  "ref_reshape x new_shape =
     (let size = prod_list (shape x);
          known = prod_list (map nat (filter (\<lambda>n. n \<noteq> - 1) new_shape))
      in
      if list_ex (\<lambda>n. n < - 1) new_shape
        then Inl (ValueError ''negative dimensions not allowed'')
      else if 1 < length (filter (\<lambda>n. n = - 1) new_shape)
        then Inl (ValueError ''can only specify one unknown dimension'')
      else if - 1 \<in> set new_shape then
        if known = 0 \<or> size mod known \<noteq> 0
          then Inl (ValueError ''cannot reshape array'')
        else Inr \<lparr> shape = map (\<lambda>n. if n = - 1 then size div known else nat n) new_shape,
                   elems = elems x \<rparr>
      else if known = size then Inr \<lparr> shape = map nat new_shape, elems = elems x \<rparr>
      else Inl (ValueError ''cannot reshape array''))"

definition ref_matmul :: "real ndarray \<Rightarrow> real ndarray \<Rightarrow> exn + real ndarray" where
  "ref_matmul a b =
     (if shape a \<noteq> [] \<and> length (shape b) = 2 \<and> last (shape a) = shape b ! 0
      then Inr (tab (butlast (shape a) @ [shape b ! 1])
             (\<lambda>idx. \<Sum>j<last (shape a). entry a (butlast idx @ [j]) * entry b [j, last idx]))
      else Inl (NativeError ''matmul operands outside the reference semantics''))"

definition ref_split :: "real ndarray \<Rightarrow> nat \<Rightarrow> int \<Rightarrow> exn + real ndarray list" where
  "ref_split x n axis =
     (case norm_axis (length (shape x)) axis of
        None \<Rightarrow> Inl (NativeError ''axis out of range'')
      | Some ax \<Rightarrow>
          if n = 0 \<or> shape x ! ax mod n \<noteq> 0
            then Inl (ValueError ''array split does not result in an equal division'')
          else
            let w = shape x ! ax div n in
            Inr (map (\<lambda>k. tab ((shape x)[ax := w])
                            (\<lambda>idx. entry x (idx[ax := k * w + idx ! ax]))) [0..<n]))"

definition ref_unstack :: "real ndarray \<Rightarrow> int \<Rightarrow> exn + real ndarray list" where
  "ref_unstack x axis =
     (case norm_axis (length (shape x)) axis of
        None \<Rightarrow> Inl (NativeError ''axis out of range'')
      | Some ax \<Rightarrow>
          Inr (map (\<lambda>t. tab (take ax (shape x) @ drop (Suc ax) (shape x))
                          (\<lambda>idx. entry x (take ax idx @ [t] @ drop ax idx)))
                 [0..<shape x ! ax]))"

definition ref_expand_dims :: "real ndarray \<Rightarrow> int \<Rightarrow> exn + real ndarray" where
  "ref_expand_dims x axis =
     (case norm_axis (Suc (length (shape x))) axis of
        None \<Rightarrow> Inl (NativeError ''axis out of range'')
      | Some p \<Rightarrow>
          Inr \<lparr> shape = take p (shape x) @ [1] @ drop p (shape x), elems = elems x \<rparr>)"

fun locate :: "nat list \<Rightarrow> nat \<Rightarrow> nat \<times> nat" where
  "locate [] i = (0, i)"
| "locate (n # ns) i =
     (if i < n then (0, i) else (case locate ns (i - n) of (k, j) \<Rightarrow> (Suc k, j)))"

definition ref_concat :: "real ndarray list \<Rightarrow> int \<Rightarrow> exn + real ndarray" where
  "ref_concat xs axis =
     (case xs of
        [] \<Rightarrow> Inl (ValueError ''need at least one array to concatenate'')
      | x0 # _ \<Rightarrow>
          (case norm_axis (length (shape x0)) axis of
             None \<Rightarrow> Inl (NativeError ''axis out of range'')
           | Some ax \<Rightarrow>
               if list_all (\<lambda>x. (shape x)[ax := 0] = (shape x0)[ax := 0]) xs
               then
                 let sizes = map (\<lambda>x. shape x ! ax) xs in
                 Inr (tab ((shape x0)[ax := sum_list sizes])
                        (\<lambda>idx. case locate sizes (idx ! ax) of
                                  (k, j) \<Rightarrow> entry (xs ! k) (idx[ax := j])))
               else Inl (ValueError ''all the input array dimensions except for the concatenation axis must match exactly'')))"

definition ref_add :: "real ndarray \<Rightarrow> real ndarray \<Rightarrow> exn + real ndarray" where
  "ref_add a b =
     (if shape a = shape b then pointwise2 (+) a b
      else if shape a \<noteq> [] \<and> shape b = [last (shape a)]
        then Inr (tab (shape a) (\<lambda>idx. entry a idx + entry b [last idx]))
      else Inl (NativeError ''operands could not be broadcast together''))"

text \<open>The logistic function.\<close>

definition sigmoid :: "real \<Rightarrow> real" where
  "sigmoid z = 1 / (1 + exp (- z))"

text \<open>
  Modelled from the spec: the backend module that \<open>current_framework\<close> selects is not
  among the sources; \<open>ref\<close> is the backend whose primitives are the functions above.
\<close>

definition ref ::
  "(nat list \<Rightarrow> real list) \<Rightarrow> dtype \<Rightarrow> (real ndarray, bool ndarray) ivy_api" where
  "ref rng dt =
     \<lparr> shape_of = shape,
       ivy_dev = (\<lambda>x. ''cpu''),
       ivy_dtype = (\<lambda>x. dt),
       ivy_random_uniform = ref_random_uniform rng,
       ivy_zeros_like = (\<lambda>x. Inr (pointwise (\<lambda>v. 0) x)),
       ivy_ones_like = (\<lambda>x. Inr (pointwise (\<lambda>v. 1) x)),
       ivy_where = ref_where,
       ivy_logical_not = (\<lambda>m. Inr (pointwise Not m)),
       ivy_einsum = ref_einsum,
       ivy_softmax = ref_softmax,
       ivy_reshape = ref_reshape,
       ivy_matmul = ref_matmul,
       ivy_split = ref_split,
       ivy_unstack = ref_unstack,
       ivy_sigmoid = (\<lambda>x. Inr (pointwise sigmoid x)),
       ivy_tanh = (\<lambda>x. Inr (pointwise tanh x)),
       ivy_expand_dims = ref_expand_dims,
       ivy_concat = ref_concat,
       array_lt = (\<lambda>x p. Inr (pointwise (\<lambda>v. v < p) x)),
       array_neg = (\<lambda>x. Inr (pointwise uminus x)),
       array_mul_scalar = (\<lambda>x s. Inr (pointwise (\<lambda>v. v * s) x)),
       array_add = ref_add,
       array_add_scalar = (\<lambda>x s. Inr (pointwise (\<lambda>v. v + s) x)),
       array_mul = pointwise2 times \<rparr>"


section \<open>What the composite functions are to compute\<close>

subsection \<open>Scaled dot-product attention\<close>

text \<open>
  The textbook formula \<open>softmax(scale * q\<cdot>k\<^sup>T, last axis)\<cdot>v\<close>, entry by entry, for a
  batch index \<open>b\<close>, a query \<open>i\<close> and a key \<open>j\<close>: \<open>dot_qk\<close> is the entry of
  \<open>q\<cdot>k\<^sup>T\<close>, \<open>similarity\<close> the scaled entry (replaced by \<open>lowest\<close> where a mask is
  given and is false), \<open>attention_weight\<close> its softmax over the keys, and
  \<open>attention_formula\<close> the product with \<open>v\<close>.
\<close>

definition dot_qk :: "real ndarray \<Rightarrow> real ndarray \<Rightarrow> nat list \<Rightarrow> nat \<Rightarrow> nat \<Rightarrow> real" where
  "dot_qk q k b i j =
     (\<Sum>f<last (shape q). entry q (b @ [i, f]) * entry k (b @ [j, f]))"

definition similarity ::
  "real ndarray \<Rightarrow> real ndarray \<Rightarrow> real \<Rightarrow> (bool ndarray \<times> real) option
     \<Rightarrow> nat list \<Rightarrow> nat \<Rightarrow> nat \<Rightarrow> real" where
  "similarity q k scale masking b i j =
     (case masking of
        None \<Rightarrow> scale * dot_qk q k b i j
      | Some (m, lowest) \<Rightarrow>
          if entry m (b @ [i, j]) then scale * dot_qk q k b i j else lowest)"

definition attention_weight ::
  "real ndarray \<Rightarrow> real ndarray \<Rightarrow> real \<Rightarrow> (bool ndarray \<times> real) option
     \<Rightarrow> nat list \<Rightarrow> nat \<Rightarrow> nat \<Rightarrow> real" where
  "attention_weight q k scale masking b i j =
     exp (similarity q k scale masking b i j) /
     (\<Sum>j'<shape k ! (length (shape k) - 2). exp (similarity q k scale masking b i j'))"

definition attention_formula ::
  "real ndarray \<Rightarrow> real ndarray \<Rightarrow> real ndarray \<Rightarrow> real \<Rightarrow> (bool ndarray \<times> real) option
     \<Rightarrow> real ndarray" where
  "attention_formula q k v scale masking =
     (let r = length (shape q) in
      tab (take (r - 2) (shape q) @ [shape q ! (r - 2), shape v ! (r - 1)])
        (\<lambda>idx. \<Sum>j<shape k ! (r - 2).
                  attention_weight q k scale masking (take (r - 2) idx) (idx ! (r - 2)) j
                  * entry v (take (r - 2) idx @ [j, idx ! (r - 1)])))"


subsection \<open>Sample inputs\<close>

text \<open>A source of samples that always draws one half.\<close>

definition half_rng :: "nat list \<Rightarrow> real list" where
  "half_rng sh = replicate (prod_list sh) (1 / 2)"

text \<open>
  One query \<open>(1, 2)\<close>, two keys \<open>(1, 0)\<close> and \<open>(0, 1)\<close> with the values \<open>3\<close> and
  \<open>6\<close>, in a batch of one, and a mask that hides the second key.
\<close>

definition sample_q :: "real ndarray" where "sample_q = \<lparr> shape = [1, 1, 2], elems = [1, 2] \<rparr>"
definition sample_k :: "real ndarray" where
  "sample_k = \<lparr> shape = [1, 2, 2], elems = [1, 0, 0, 1] \<rparr>"
definition sample_v :: "real ndarray" where "sample_v = \<lparr> shape = [1, 2, 1], elems = [3, 6] \<rparr>"
definition sample_mask :: "bool ndarray" where
  "sample_mask = \<lparr> shape = [1, 1, 2], elems = [True, False] \<rparr>"


subsection \<open>The LSTM recurrence\<close>

text \<open>
  The standard recurrence, entry by entry, for a batch index \<open>b\<close> and a unit \<open>u\<close>. The
  kernels hold the four gates side by side, in the order input, forget, cell, output: gate
  \<open>g\<close> owns the columns \<open>g * out + u\<close>. \<open>gate_input\<close> is the entry of
  \<open>W\<^sub>i\<^sub>g\<cdot>x\<^sub>t\<close> (plus the bias, when given), \<open>gate_recurrent\<close> the entry of
  \<open>W\<^sub>h\<^sub>g\<cdot>h\<^sub>t\<^sub>-\<^sub>1\<close> (plus the recurrent bias).
\<close>

definition gate_input ::
  "real ndarray \<Rightarrow> real ndarray \<Rightarrow> real ndarray option \<Rightarrow> nat \<Rightarrow> nat \<Rightarrow> nat list \<Rightarrow> nat \<Rightarrow> real"
where
  "gate_input x W bias g t b u =
     (let out = shape W ! 1 div 4 in
      (\<Sum>i<shape W ! 0. entry x (b @ [t, i]) * entry W [i, g * out + u])
      + (case bias of None \<Rightarrow> 0 | Some bv \<Rightarrow> entry bv [g * out + u]))"

definition gate_recurrent ::
  "real ndarray \<Rightarrow> real ndarray \<Rightarrow> real ndarray option \<Rightarrow> nat \<Rightarrow> nat list \<Rightarrow> nat \<Rightarrow> real"
where
  "gate_recurrent h Wh recurrent_bias g b u =
     (let out = shape Wh ! 1 div 4 in
      (\<Sum>j<shape Wh ! 0. entry h (b @ [j]) * entry Wh [j, g * out + u])
      + (case recurrent_bias of None \<Rightarrow> 0 | Some bv \<Rightarrow> entry bv [g * out + u]))"

text \<open>The array of the values \<open>W\<^sub>i\<^sub>g\<cdot>x\<^sub>t\<close> of one gate at one timestep.\<close>

definition input_slice ::
  "real ndarray \<Rightarrow> real ndarray \<Rightarrow> real ndarray option \<Rightarrow> nat \<Rightarrow> nat \<Rightarrow> real ndarray" where
  "input_slice x W bias g t =
     tab (take (length (shape x) - 2) (shape x) @ [shape W ! 1 div 4])
       (\<lambda>idx. gate_input x W bias g t (butlast idx) (last idx))"

text \<open>
  One step: \<open>i\<^sub>t = sigmoid(W\<^sub>i\<^sub>i\<cdot>x\<^sub>t + W\<^sub>h\<^sub>i\<cdot>h\<^sub>t\<^sub>-\<^sub>1)\<close>, likewise \<open>f\<^sub>t\<close> and \<open>o\<^sub>t\<close>,
  \<open>g\<^sub>t = tanh(W\<^sub>i\<^sub>g\<cdot>x\<^sub>t + W\<^sub>h\<^sub>g\<cdot>h\<^sub>t\<^sub>-\<^sub>1)\<close>, \<open>c\<^sub>t = f\<^sub>t * c\<^sub>t\<^sub>-\<^sub>1 + i\<^sub>t * g\<^sub>t\<close> and
  \<open>h\<^sub>t = o\<^sub>t * tanh(c\<^sub>t)\<close>. \<open>lstm_states \<dots> t\<close> is the pair \<open>(h\<^sub>t, c\<^sub>t)\<close> after \<open>t\<close>
  steps, and \<open>lstm_formula\<close> the pair of all hidden states, stacked along the time axis,
  and the last cell state.
\<close>

definition lstm_cell ::
  "real ndarray \<Rightarrow> real ndarray \<Rightarrow> real ndarray \<Rightarrow> real ndarray option \<Rightarrow> real ndarray option
     \<Rightarrow> nat \<Rightarrow> real ndarray \<times> real ndarray \<Rightarrow> real ndarray \<times> real ndarray" where
  "lstm_cell x W Wh bias recurrent_bias t hc =
     (let h = fst hc; c = snd hc;
          sh = take (length (shape x) - 2) (shape x) @ [shape W ! 1 div 4];
          pre = (\<lambda>g idx. gate_input x W bias g t (butlast idx) (last idx)
                         + gate_recurrent h Wh recurrent_bias g (butlast idx) (last idx));
          c' = tab sh (\<lambda>idx. sigmoid (pre 1 idx) * entry c idx
                              + sigmoid (pre 0 idx) * tanh (pre 2 idx));
          h' = tab sh (\<lambda>idx. sigmoid (pre 3 idx) * tanh (entry c' idx))
      in (h', c'))"

fun lstm_states ::
  "real ndarray \<Rightarrow> real ndarray \<Rightarrow> real ndarray \<Rightarrow> real ndarray option \<Rightarrow> real ndarray option
     \<Rightarrow> real ndarray \<Rightarrow> real ndarray \<Rightarrow> nat \<Rightarrow> real ndarray \<times> real ndarray" where
  "lstm_states x W Wh bias recurrent_bias h0 c0 0 = (h0, c0)"
| "lstm_states x W Wh bias recurrent_bias h0 c0 (Suc t) =
     lstm_cell x W Wh bias recurrent_bias t (lstm_states x W Wh bias recurrent_bias h0 c0 t)"

definition lstm_formula ::
  "real ndarray \<Rightarrow> real ndarray \<Rightarrow> real ndarray \<Rightarrow> real ndarray \<Rightarrow> real ndarray
     \<Rightarrow> real ndarray option \<Rightarrow> real ndarray option \<Rightarrow> real ndarray \<times> real ndarray" where
  "lstm_formula x h0 c0 W Wh bias recurrent_bias =
     (let n = length (shape x) - 2;
          T = shape x ! n;
          states = lstm_states x W Wh bias recurrent_bias h0 c0
      in (tab (take n (shape x) @ [T, shape W ! 1 div 4])
            (\<lambda>idx. entry (fst (states (Suc (idx ! n)))) (take n idx @ [idx ! Suc n])),
          snd (states T)))"

subsection \<open>Sample inputs for the LSTM update\<close>

text \<open>
  A batch of one with two timesteps, two input channels and one unit. Only the cell gate has
  weights: its input weights are \<open>1\<close> and \<open>-1\<close>, its recurrent weight \<open>1\<close> and its
  bias \<open>1\<close>. \<open>sample_state a\<close> is the state of the one unit with the value \<open>a\<close>.
\<close>

definition sample_state :: "real \<Rightarrow> real ndarray" where
  "sample_state a = \<lparr> shape = [1, 1], elems = [a] \<rparr>"
definition sample_x :: "real ndarray" where
  "sample_x = \<lparr> shape = [1, 2, 2], elems = [1, 4, 3, 2] \<rparr>"
definition sample_w :: "real ndarray" where
  "sample_w = \<lparr> shape = [2, 4], elems = [0, 0, 1, 0, 0, 0, - 1, 0] \<rparr>"
definition sample_wh :: "real ndarray" where
  "sample_wh = \<lparr> shape = [1, 4], elems = [0, 0, 1, 0] \<rparr>"
definition sample_bias :: "real ndarray" where
  "sample_bias = \<lparr> shape = [4], elems = [0, 0, 1, 0] \<rparr>"

text \<open>Inputs with no batch entry, with no timestep and with no input channel.\<close>

definition sample_x_no_batch :: "real ndarray" where
  "sample_x_no_batch = \<lparr> shape = [0, 1, 1], elems = [] \<rparr>"
definition sample_state_no_batch :: "real ndarray" where
  "sample_state_no_batch = \<lparr> shape = [0, 1], elems = [] \<rparr>"
definition sample_x_no_steps :: "real ndarray" where
  "sample_x_no_steps = \<lparr> shape = [1, 0, 1], elems = [] \<rparr>"
definition sample_x_no_channels :: "real ndarray" where
  "sample_x_no_channels = \<lparr> shape = [1, 1, 0], elems = [] \<rparr>"
definition sample_w_no_channels :: "real ndarray" where
  "sample_w_no_channels = \<lparr> shape = [0, 4], elems = [] \<rparr>"


section \<open>Properties of the torch sparse-array module\<close>

lemma native_sparse_array_coo:
  assumes "is_data_not_indices_values_and_shape E data c = Inr False"
    and "is_coo E c = Inr True"
    and "verify_coo_components E (coo_indices c) (vals c) (dense_shape c) = Inr ()"
  shows "native_sparse_array E data c =
           map_sum id Some (torch_sparse_coo_tensor E (coo_indices c) (vals c) (dense_shape c))"
  using assms by (simp add: native_sparse_array_def bind_exn_def split: sum.splits)

lemma native_sparse_array_csr:
  assumes "is_data_not_indices_values_and_shape E data c = Inr False"
    and "is_coo E c = Inr False" and "is_csr E c = Inr True"
    and "verify_csr_components E (csr_crow_indices c) (csr_col_indices c)
           (vals c) (dense_shape c) = Inr ()"
  shows "native_sparse_array E data c =
           map_sum id Some (torch_sparse_csr_tensor E (csr_crow_indices c) (csr_col_indices c)
             (vals c) (dense_shape c))"
  using assms by (simp add: native_sparse_array_def bind_exn_def split: sum.splits)

lemma native_sparse_array_csc:
  assumes "is_data_not_indices_values_and_shape E data c = Inr False"
    and "is_coo E c = Inr False" and "is_csr E c = Inr False" and "is_csc E c = Inr True"
    and "verify_csc_components E (csc_ccol_indices c) (csc_row_indices c)
           (vals c) (dense_shape c) = Inr ()"
  shows "native_sparse_array E data c =
           map_sum id Some (torch_sparse_csc_tensor E (csc_ccol_indices c) (csc_row_indices c)
             (vals c) (dense_shape c))"
  using assms by (simp add: native_sparse_array_def bind_exn_def split: sum.splits)

text \<open>
  C1. A call whose keyword arguments are recognised as one supported format should return
  the tensor built by torch's constructor for that format and never \<open>None\<close>. For COO, CSR
  and CSC it does (the three lemmas above). For BSC and BSR it does not: once the component
  check has passed, the branch ends without building or returning anything, so the call
  returns \<open>None\<close>.
\<close>

theorem native_sparse_array_block_formats_return_None:
  "(is_data_not_indices_values_and_shape E data c = Inr False \<and>
    is_coo E c = Inr False \<and> is_csr E c = Inr False \<and> is_csc E c = Inr False \<and>
    is_bsc E c = Inr True \<and>
    verify_bsc_components E (bsc_ccol_indices c) (bsc_row_indices c)
      (vals c) (dense_shape c) = Inr ()
    \<longrightarrow> native_sparse_array E data c = Inr None)
   \<and>
   (is_data_not_indices_values_and_shape E data c = Inr False \<and>
    is_coo E c = Inr False \<and> is_csr E c = Inr False \<and> is_csc E c = Inr False \<and>
    is_bsc E c = Inr False \<and> is_bsr E c = Inr True \<and>
    verify_bsr_components E (bsr_crow_indices c) (bsr_col_indices c)
      (vals c) (dense_shape c) = Inr ()
    \<longrightarrow> native_sparse_array E data c = Inr None)"
  by (simp add: native_sparse_array_def)

theorem native_sparse_array_block_formats_return_None_witness:
  "native_sparse_array sample_env None sample_bsc = Inr None \<and>
   native_sparse_array sample_env None sample_bsr = Inr None"
proof -
  have bsc:
    "is_data_not_indices_values_and_shape sample_env None sample_bsc = Inr False"
    "is_coo sample_env sample_bsc = Inr False" "is_csr sample_env sample_bsc = Inr False"
    "is_csc sample_env sample_bsc = Inr False" "is_bsc sample_env sample_bsc = Inr True"
    "verify_bsc_components sample_env (bsc_ccol_indices sample_bsc)
       (bsc_row_indices sample_bsc) (vals sample_bsc) (dense_shape sample_bsc) = Inr ()"
    by (simp_all add: sample_defs)
  have bsr:
    "is_data_not_indices_values_and_shape sample_env None sample_bsr = Inr False"
    "is_coo sample_env sample_bsr = Inr False" "is_csr sample_env sample_bsr = Inr False"
    "is_csc sample_env sample_bsr = Inr False" "is_bsc sample_env sample_bsr = Inr False"
    "is_bsr sample_env sample_bsr = Inr True"
    "verify_bsr_components sample_env (bsr_crow_indices sample_bsr)
       (bsr_col_indices sample_bsr) (vals sample_bsr) (dense_shape sample_bsr) = Inr ()"
    by (simp_all add: sample_defs)
  show ?thesis
    using native_sparse_array_block_formats_return_None [of sample_env None sample_bsc]
          native_sparse_array_block_formats_return_None [of sample_env None sample_bsr]
          bsc bsr
    by simp
qed


text \<open>
  C6. When the keyword arguments are recognised as one explicit format, that format's
  component check runs before any tensor is built: if the check raises, the call raises the
  same exception, whatever torch's constructor would have done. When \<open>data\<close> is passed
  instead of components, the call returns \<open>data\<close> as it is if
  \<open>ivy.is_native_sparse_array\<close> accepts it, and raises an \<open>IvyException\<close> with the
  message ``not a sparse array'' otherwise.
\<close>

theorem native_sparse_array_checks_first:
  "(is_data_not_indices_values_and_shape E data c = Inr False \<and> is_coo E c = Inr True \<and>
    verify_coo_components E (coo_indices c) (vals c) (dense_shape c) = Inl e
    \<longrightarrow> native_sparse_array E data c = Inl e)
   \<and>
   (is_data_not_indices_values_and_shape E data c = Inr False \<and> is_coo E c = Inr False \<and>
    is_csr E c = Inr True \<and>
    verify_csr_components E (csr_crow_indices c) (csr_col_indices c)
      (vals c) (dense_shape c) = Inl e
    \<longrightarrow> native_sparse_array E data c = Inl e)
   \<and>
   (is_data_not_indices_values_and_shape E data c = Inr False \<and> is_coo E c = Inr False \<and>
    is_csr E c = Inr False \<and> is_csc E c = Inr True \<and>
    verify_csc_components E (csc_ccol_indices c) (csc_row_indices c)
      (vals c) (dense_shape c) = Inl e
    \<longrightarrow> native_sparse_array E data c = Inl e)
   \<and>
   (is_data_not_indices_values_and_shape E data c = Inr False \<and> is_coo E c = Inr False \<and>
    is_csr E c = Inr False \<and> is_csc E c = Inr False \<and> is_bsc E c = Inr True \<and>
    verify_bsc_components E (bsc_ccol_indices c) (bsc_row_indices c)
      (vals c) (dense_shape c) = Inl e
    \<longrightarrow> native_sparse_array E data c = Inl e)
   \<and>
   (is_data_not_indices_values_and_shape E data c = Inr False \<and> is_coo E c = Inr False \<and>
    is_csr E c = Inr False \<and> is_csc E c = Inr False \<and> is_bsc E c = Inr False \<and>
    is_bsr E c = Inr True \<and>
    verify_bsr_components E (bsr_crow_indices c) (bsr_col_indices c)
      (vals c) (dense_shape c) = Inl e
    \<longrightarrow> native_sparse_array E data c = Inl e)
   \<and>
   (is_data_not_indices_values_and_shape E data c = Inr True \<and>
    ivy_is_native_sparse_array E data = Inr True
    \<longrightarrow> native_sparse_array E data c = Inr data)
   \<and>
   (is_data_not_indices_values_and_shape E data c = Inr True \<and>
    ivy_is_native_sparse_array E data = Inr False
    \<longrightarrow> native_sparse_array E data c = Inl (IvyException ''not a sparse array''))"
  by (simp add: native_sparse_array_def check_true_def)

theorem native_sparse_array_checks_first_witness:
  "native_sparse_array sample_env None sample_bad_csr =
     Inl (IvyException ''components do not match'') \<and>
   native_sparse_array sample_env (Some (sparse_csr, [0, 1], [0], [5], [1, 1])) no_components =
     Inr (Some (sparse_csr, [0, 1], [0], [5], [1, 1])) \<and>
   native_sparse_array sample_env (Some (strided, [], [], [5], [1, 1])) no_components =
     Inl (IvyException ''not a sparse array'')"
proof -
  let ?e = "IvyException ''components do not match''"
  let ?good = "Some (sparse_csr, [0, 1], [0], [5], [1, 1]) :: sample_tensor option"
  let ?bad = "Some (strided, [], [], [5], [1, 1]) :: sample_tensor option"
  have csr:
    "is_data_not_indices_values_and_shape sample_env None sample_bad_csr = Inr False"
    "is_coo sample_env sample_bad_csr = Inr False"
    "is_csr sample_env sample_bad_csr = Inr True"
    "verify_csr_components sample_env (csr_crow_indices sample_bad_csr)
       (csr_col_indices sample_bad_csr) (vals sample_bad_csr) (dense_shape sample_bad_csr)
     = Inl ?e"
    by (simp_all add: sample_defs)
  have good:
    "is_data_not_indices_values_and_shape sample_env ?good no_components = Inr True"
    "ivy_is_native_sparse_array sample_env ?good = Inr True"
    by (simp_all add: sample_defs is_native_sparse_array_def)
  have bad:
    "is_data_not_indices_values_and_shape sample_env ?bad no_components = Inr True"
    "ivy_is_native_sparse_array sample_env ?bad = Inr False"
    by (simp_all add: sample_defs is_native_sparse_array_def)
  show ?thesis
    using native_sparse_array_checks_first [of sample_env None sample_bad_csr ?e]
          native_sparse_array_checks_first [of sample_env ?good no_components ?e]
          native_sparse_array_checks_first [of sample_env ?bad no_components ?e]
          csr good bad
    by simp
qed

text \<open>
  C7. The decomposer raises an \<open>IvyException\<close>, with the message ``not a sparse
  COO/CSR/CSC/BSC/BSR Tensor'', exactly when the tensor's layout is none of the five sparse
  layouts. For each of the five it returns the dict of that layout's index tensors, the
  values and the dense shape; a COO tensor is coalesced first, a tensor of the other four
  layouts is read as it is.
\<close>

theorem native_sparse_array_to_indices_values_and_shape_cases:
  "((\<exists>msg. native_sparse_array_to_indices_values_and_shape T x = Inl (IvyException msg))
      \<longleftrightarrow> layout_of T x \<notin> {sparse_coo, sparse_csr, sparse_csc, sparse_bsc, sparse_bsr})
   \<and>
   (layout_of T x \<notin> {sparse_coo, sparse_csr, sparse_csc, sparse_bsc, sparse_bsr}
      \<longrightarrow> native_sparse_array_to_indices_values_and_shape T x =
            Inl (IvyException ''not a sparse COO/CSR/CSC/BSC/BSR Tensor''))
   \<and>
   (layout_of T x = sparse_coo
      \<longrightarrow> native_sparse_array_to_indices_values_and_shape T x =
            Inr ([(''coo_indices'', indices T (coalesce T x))],
                 values_of T (coalesce T x), size_of T (coalesce T x)))
   \<and>
   (layout_of T x = sparse_csr
      \<longrightarrow> native_sparse_array_to_indices_values_and_shape T x =
            Inr ([(''csr_crow_indices'', crow_indices T x),
                  (''csr_col_indices'', col_indices T x)], values_of T x, size_of T x))
   \<and>
   (layout_of T x = sparse_csc
      \<longrightarrow> native_sparse_array_to_indices_values_and_shape T x =
            Inr ([(''csc_ccol_indices'', ccol_indices T x),
                  (''csc_row_indices'', row_indices T x)], values_of T x, size_of T x))
   \<and>
   (layout_of T x = sparse_bsc
      \<longrightarrow> native_sparse_array_to_indices_values_and_shape T x =
            Inr ([(''bsc_ccol_indices'', ccol_indices T x),
                  (''bsc_row_indices'', row_indices T x)], values_of T x, size_of T x))
   \<and>
   (layout_of T x = sparse_bsr
      \<longrightarrow> native_sparse_array_to_indices_values_and_shape T x =
            Inr ([(''bsr_crow_indices'', crow_indices T x),
                  (''bsr_col_indices'', col_indices T x)], values_of T x, size_of T x))"
  by (simp add: native_sparse_array_to_indices_values_and_shape_def Let_def)

theorem native_sparse_array_to_indices_values_and_shape_cases_witness:
  "native_sparse_array_to_indices_values_and_shape sample_ops
     (sparse_coo, [2, 0, 1], [], [7, 8, 9], [3])
     = Inr ([(''coo_indices'', [0, 1, 2])], [7, 8, 9], [3]) \<and>
   native_sparse_array_to_indices_values_and_shape sample_ops
     (sparse_bsr, [0, 1], [0], [5], [1, 1])
     = Inr ([(''bsr_crow_indices'', [0, 1]), (''bsr_col_indices'', [0])], [5], [1, 1]) \<and>
   native_sparse_array_to_indices_values_and_shape sample_ops
     (strided, [], [], [5], [1])
     = Inl (IvyException ''not a sparse COO/CSR/CSC/BSC/BSR Tensor'')"
  using native_sparse_array_to_indices_values_and_shape_cases
          [of sample_ops "(sparse_coo, [2, 0, 1], [], [7, 8, 9], [3])"]
        native_sparse_array_to_indices_values_and_shape_cases
          [of sample_ops "(sparse_bsr, [0, 1], [0], [5], [1, 1])"]
        native_sparse_array_to_indices_values_and_shape_cases
          [of sample_ops "(strided, [], [], [5], [1])"]
  by (simp add: sample_ops_def)




section \<open>Properties of the JAX reductions and of the convolution dispatch\<close>

text \<open>
  C4. The JAX backend's \<open>all\<close> returns exactly what \<open>jnp.all\<close> returns (or raises) on
  the same array, axis and \<open>keepdims\<close>, and \<open>any\<close> exactly what \<open>jnp.any\<close> does: the
  wrappers add and change nothing.
\<close>

theorem jax_all_any_are_native:
  "all_jax J x axis keepdims = jnp_all J x axis keepdims \<and>
   any_jax J x axis keepdims = jnp_any J x axis keepdims"
  by (simp add: all_jax_def any_jax_def bind_exn_def split: sum.split)

text \<open>
  C5. Whenever \<open>current_framework\<close> selects a module \<open>m\<close> for \<open>x\<close>, each of the seven
  convolution functions of the unified API returns exactly what the function of the same
  name of \<open>m\<close> returns (or raises) on the same arguments.
\<close>

theorem conv_dispatch:
  "cf x = Inr m \<Longrightarrow>
     conv1d cf x filters strides padding data_format dilations =
       backend_conv1d m x filters strides padding data_format dilations \<and>
     conv1d_transpose cf x filters strides padding output_shape data_format dilations =
       backend_conv1d_transpose m x filters strides padding output_shape data_format
         dilations \<and>
     conv2d cf x filters strides padding data_format dilations =
       backend_conv2d m x filters strides padding data_format dilations \<and>
     conv2d_transpose cf x filters strides padding output_shape data_format dilations =
       backend_conv2d_transpose m x filters strides padding output_shape data_format
         dilations \<and>
     depthwise_conv2d cf x filters strides padding data_format dilations =
       backend_depthwise_conv2d m x filters strides padding data_format dilations \<and>
     conv3d cf x filters strides padding data_format dilations =
       backend_conv3d m x filters strides padding data_format dilations \<and>
     conv3d_transpose cf x filters strides padding output_shape data_format dilations =
       backend_conv3d_transpose m x filters strides padding output_shape data_format
         dilations"
  by (simp add: conv1d_def conv1d_transpose_def conv2d_def conv2d_transpose_def
        depthwise_conv2d_def conv3d_def conv3d_transpose_def)

theorem conv_dispatch_witness:
  "sample_selector [4, 5] = Inr sample_backend \<and>
   conv1d sample_selector [4, 5] [1] 2 ''SAME'' ''NWC'' 1 = Inr [1, 2, 1, 4, 5, 1] \<and>
   conv3d sample_selector [4, 5] [1] 2 ''SAME'' ''NDHWC'' 1 = Inr [6, 2, 1, 4, 5, 1] \<and>
   conv3d sample_selector [4, 5] [1] 2 ''SAME'' ''NCDHW'' 1 =
     Inl (NativeError ''data format'') \<and>
   conv2d_transpose sample_selector [4, 5] [1] 2 ''SAME'' None ''NWC'' 1 =
     Inr [4, 2, 1, 4, 5, 1]"
proof -
  have h: "sample_selector [4, 5] = Inr sample_backend"
    by (simp add: sample_selector_def)
  show ?thesis
    using h
      conv_dispatch [of sample_selector "[4, 5]" sample_backend
                        "[1]" 2 "''SAME''" "''NWC''" 1 None]
      conv_dispatch [of sample_selector "[4, 5]" sample_backend
                        "[1]" 2 "''SAME''" "''NDHWC''" 1 None]
      conv_dispatch [of sample_selector "[4, 5]" sample_backend
                        "[1]" 2 "''SAME''" "''NCDHW''" 1 None]
    by (simp add: sample_backend_def)
qed

section \<open>Properties of the reference arrays\<close>

lemma length_indices [simp]: "length (multi_indices sh) = prod_list sh"
proof (induction sh)
  case Nil
  then show ?case by simp
next
  case (Cons n ns)
  have "length (concat (map (\<lambda>i. map ((#) i) (multi_indices ns)) [0..<n])) = n * prod_list ns"
    using Cons by (induction n) (simp_all add: length_concat)
  then show ?case by simp
qed

lemma nth_concat_uniform:
  assumes "\<forall>xs \<in> set xss. length xs = n" and "i < length xss" and "j < n"
  shows "concat xss ! (i * n + j) = xss ! i ! j"
  using assms
proof (induction xss arbitrary: i)
  case Nil
  then show ?case by simp
next
  case (Cons xs xss)
  show ?case
  proof (cases i)
    case 0
    with Cons.prems show ?thesis by (simp add: nth_append)
  next
    case (Suc k)
    with Cons.prems have "concat xss ! (k * n + j) = xss ! k ! j"
      by (intro Cons.IH) auto
    with Suc Cons.prems show ?thesis by (simp add: nth_append)
  qed
qed

lemma flat_index_less: "valid sh idx \<Longrightarrow> flat_index sh idx < prod_list sh"
  unfolding valid_def
proof (induction idx sh rule: list_all2_induct)
  case Nil
  then show ?case by simp
next
  case (Cons i js n ns)
  have "i * prod_list ns + flat_index ns js < Suc i * prod_list ns"
    using Cons by simp
  also have "\<dots> \<le> n * prod_list ns"
    using Cons.hyps(1) by (intro mult_le_mono1) simp
  finally show ?case by simp
qed

lemma indices_nth: "valid sh idx \<Longrightarrow> multi_indices sh ! flat_index sh idx = idx"
  unfolding valid_def
proof (induction idx sh rule: list_all2_induct)
  case Nil
  then show ?case by simp
next
  case (Cons i js n ns)
  let ?xss = "map (\<lambda>i. map ((#) i) (multi_indices ns)) [0..<n]"
  have lt: "flat_index ns js < prod_list ns"
    using Cons.hyps(2) flat_index_less by (simp add: valid_def)
  have "concat ?xss ! (i * prod_list ns + flat_index ns js) = ?xss ! i ! flat_index ns js"
    using Cons.hyps(1) lt by (intro nth_concat_uniform) auto
  also have "\<dots> = i # js"
    using Cons lt by simp
  finally show ?case by simp
qed

lemma set_indices: "set (multi_indices sh) = {idx. valid sh idx}"
  unfolding valid_def
proof (induction sh)
  case Nil
  then show ?case by auto
next
  case (Cons n ns)
  show ?case
  proof (intro set_eqI iffI)
    fix idx assume "idx \<in> set (multi_indices (n # ns))"
    then obtain i js where "i < n" "js \<in> set (multi_indices ns)" "idx = i # js"
      by auto
    with Cons show "idx \<in> {idx. list_all2 (<) idx (n # ns)}" by auto
  next
    fix idx assume "idx \<in> {idx. list_all2 (<) idx (n # ns)}"
    then obtain i js where "idx = i # js" "i < n" "list_all2 (<) js ns"
      by (auto simp: list_all2_Cons2)
    with Cons show "idx \<in> set (multi_indices (n # ns))" by auto
  qed
qed

lemma well_shaped_tab [simp]: "well_shaped (tab sh g)"
  by (simp add: well_shaped_def tab_def)

lemma shape_tab [simp]: "shape (tab sh g) = sh"
  by (simp add: tab_def)

lemma entry_tab [simp]: "valid sh idx \<Longrightarrow> entry (tab sh g) idx = g idx"
  by (simp add: entry_def tab_def flat_index_less indices_nth)

lemma tab_cong: "(\<And>idx. valid sh idx \<Longrightarrow> g idx = h idx) \<Longrightarrow> tab sh g = tab sh h"
  by (simp add: tab_def set_indices)

lemma concat_blocks_upt:
  "concat (map (\<lambda>i. map (\<lambda>k. i * p + k) [0..<p]) [0..<n]) = [0..<n * p]"
proof (induction n)
  case 0
  then show ?case by simp
next
  case (Suc n)
  have "map (\<lambda>k. n * p + k) [0..<p] = [n * p..<n * p + p]"
    using map_add_upt [of "n * p" p] by (simp add: add.commute)
  moreover have "[0..<n * p] @ [n * p..<n * p + p] = [0..<n * p + p]"
    using upt_add_eq_append [of 0 "n * p" p] by simp
  ultimately show ?case
    using Suc by (simp add: add.commute)
qed

lemma map_flat_index_multi_indices:
  "map (flat_index sh) (multi_indices sh) = [0..<prod_list sh]"
proof (induction sh)
  case Nil
  then show ?case by simp
next
  case (Cons n ns)
  have "map (flat_index (n # ns)) (multi_indices (n # ns)) =
          concat (map (\<lambda>i. map (\<lambda>k. i * prod_list ns + k)
                               (map (flat_index ns) (multi_indices ns))) [0..<n])"
    by (simp add: map_concat comp_def)
  also have "\<dots> = [0..<n * prod_list ns]"
    by (simp only: Cons concat_blocks_upt)
  finally show ?case by simp
qed

lemma flat_index_multi_indices:
  "k < prod_list sh \<Longrightarrow> flat_index sh (multi_indices sh ! k) = k"
  using arg_cong [OF map_flat_index_multi_indices [of sh], of "\<lambda>xs. xs ! k"]
  by simp

lemma tab_entry: "well_shaped a \<Longrightarrow> tab (shape a) (entry a) = a"
  by (cases a) (auto simp: tab_def entry_def well_shaped_def flat_index_multi_indices intro!: nth_equalityI)


lemma shape_pointwise [simp]: "shape (pointwise f a) = shape a"
  by (simp add: pointwise_def)

lemma well_shaped_pointwise [simp]: "well_shaped (pointwise f a)"
  by (simp add: pointwise_def)

lemma entry_pointwise [simp]:
  "valid (shape a) idx \<Longrightarrow> entry (pointwise f a) idx = f (entry a idx)"
  by (simp add: pointwise_def)

lemma entry_in_elems:
  "well_shaped a \<Longrightarrow> valid (shape a) idx \<Longrightarrow> entry a idx \<in> set (elems a)"
  by (simp add: entry_def well_shaped_def flat_index_less)

lemma pointwise2_same [simp]:
  "shape a = shape b \<Longrightarrow>
     pointwise2 f a b = Inr (tab (shape a) (\<lambda>idx. f (entry a idx) (entry b idx)))"
  by (simp add: pointwise2_def)

lemma ref_sel [simp]:
  "shape_of (ref rng dt) = shape"
  "ivy_dev (ref rng dt) = (\<lambda>x. ''cpu'')"
  "ivy_dtype (ref rng dt) = (\<lambda>x. dt)"
  "ivy_random_uniform (ref rng dt) = ref_random_uniform rng"
  "ivy_zeros_like (ref rng dt) = (\<lambda>x. Inr (pointwise (\<lambda>v. 0) x))"
  "ivy_ones_like (ref rng dt) = (\<lambda>x. Inr (pointwise (\<lambda>v. 1) x))"
  "ivy_where (ref rng dt) = ref_where"
  "ivy_logical_not (ref rng dt) = (\<lambda>m. Inr (pointwise Not m))"
  "ivy_einsum (ref rng dt) = ref_einsum"
  "ivy_softmax (ref rng dt) = ref_softmax"
  "ivy_reshape (ref rng dt) = ref_reshape"
  "ivy_matmul (ref rng dt) = ref_matmul"
  "ivy_split (ref rng dt) = ref_split"
  "ivy_unstack (ref rng dt) = ref_unstack"
  "ivy_sigmoid (ref rng dt) = (\<lambda>x. Inr (pointwise sigmoid x))"
  "ivy_tanh (ref rng dt) = (\<lambda>x. Inr (pointwise tanh x))"
  "ivy_expand_dims (ref rng dt) = ref_expand_dims"
  "ivy_concat (ref rng dt) = ref_concat"
  "array_lt (ref rng dt) = (\<lambda>x p. Inr (pointwise (\<lambda>v. v < p) x))"
  "array_neg (ref rng dt) = (\<lambda>x. Inr (pointwise uminus x))"
  "array_mul_scalar (ref rng dt) = (\<lambda>x s. Inr (pointwise (\<lambda>v. v * s) x))"
  "array_add (ref rng dt) = ref_add"
  "array_add_scalar (ref rng dt) = (\<lambda>x s. Inr (pointwise (\<lambda>v. v + s) x))"
  "array_mul (ref rng dt) = pointwise2 times"
  by (simp_all add: ref_def)

lemma valid_Nil [simp]: "valid [] idx \<longleftrightarrow> idx = []"
  by (simp add: valid_def)

lemma valid_Cons [simp]: "valid (n # ns) (i # js) \<longleftrightarrow> i < n \<and> valid ns js"
  by (simp add: valid_def)

lemma valid_length: "valid sh idx \<Longrightarrow> length idx = length sh"
  by (simp add: valid_def list_all2_lengthD)

lemma valid_append [simp]:
  "length b = length bs \<Longrightarrow> valid (bs @ sh) (b @ idx) \<longleftrightarrow> valid bs b \<and> valid sh idx"
  by (simp add: valid_def list_all2_append)

lemma valid_appendE:
  assumes "valid (bs @ sh) idx"
  obtains b js where "idx = b @ js" "valid bs b" "valid sh js" "length b = length bs"
  using assms unfolding valid_def
  by (auto simp: list_all2_append2 dest: list_all2_lengthD)

lemma valid_two:
  assumes "valid (bs @ [m, n]) idx"
  obtains b i j where "idx = b @ [i, j]" "valid bs b" "i < m" "j < n" "length b = length bs"
proof -
  from assms obtain b js where 1: "idx = b @ js" "valid bs b" "valid [m, n] js"
    "length b = length bs" by (rule valid_appendE)
  from 1(3) obtain i j where "js = [i, j]" "i < m" "j < n"
    by (auto simp: valid_def list_all2_Cons2)
  with 1 that show thesis by blast
qed

lemma einsum_qk:
  assumes "shape q = bs @ [Q, F]" "shape k = bs @ [K, F]"
  shows "ref_einsum ''... q f, ... k f -> ... q k'' q k =
           Inr (tab (bs @ [Q, K])
             (\<lambda>idx. dot_qk q k (take (length bs) idx) (idx ! length bs) (idx ! Suc (length bs))))"
  using assms by (simp add: ref_einsum_def dot_qk_def nth_append Let_def)

lemma einsum_av:
  assumes "shape a = bs @ [Q, K]" "shape v = bs @ [K, F]"
  shows "ref_einsum ''... q k, ... k f -> ... q f'' a v =
           Inr (tab (bs @ [Q, F])
             (\<lambda>idx. \<Sum>j<K. entry a (take (length bs) idx @ [idx ! length bs, j])
                          * entry v (take (length bs) idx @ [j, idx ! Suc (length bs)])))"
  using assms by (simp add: ref_einsum_def nth_append Let_def)

lemma norm_axis_neg1 [simp]: "norm_axis (Suc n) (- 1) = Some n"
  by (auto simp: norm_axis_def)

lemma norm_axis_neg2 [simp]: "norm_axis (Suc (Suc n)) (- 2) = Some n"
  by (auto simp: norm_axis_def)

lemma softmax_last:
  assumes "shape x = bs @ [Q, K]"
  shows "ref_softmax x (- 1) =
           Inr (tab (bs @ [Q, K])
             (\<lambda>idx. exp (entry x idx) / (\<Sum>j<K. exp (entry x (idx[Suc (length bs) := j])))))"
  using assms by (simp add: ref_softmax_def nth_append)

lemma upt_1 [simp]: "[0..<1] = [0]"
  by (simp add: upt_rec)


section \<open>Properties of dropout\<close>

text \<open>
  C9. Whatever samples in \<open>[0, 1)\<close> the random draw returns, \<open>dropout(x, 0, scale=True)\<close>
  returns \<open>x\<close> unchanged: no sample is below zero, so no entry is zeroed, and the scaling
  factor is \<open>1 / (1 - 0) = 1\<close>. With \<open>prob = 1\<close> and \<open>scale=True\<close> the scaling factor
  is \<open>1 / (1 - 1)\<close>, and the division raises \<open>ZeroDivisionError\<close>.
\<close>

theorem dropout_zero_and_one:
  assumes rng: "\<forall>sh. length (rng sh) = prod_list sh \<and> (\<forall>u \<in> set (rng sh). 0 \<le> u \<and> u < 1)"
    and x: "well_shaped x"
  shows "dropout (ref rng dt) x 0 True = Inr x \<and>
         dropout (ref rng dt) x 1 True = Inl ZeroDivisionError"
proof -
  let ?u = "\<lparr> shape = shape x, elems = rng (shape x) \<rparr>"
  have u: "well_shaped ?u"
    using rng by (simp add: well_shaped_def)
  have keep: "tab (shape x)
                (\<lambda>idx. if entry (pointwise (\<lambda>v. v < 0) ?u) idx
                        then entry (pointwise (\<lambda>v. 0) x) idx else entry x idx) = x"
  proof -
    have "tab (shape x)
            (\<lambda>idx. if entry (pointwise (\<lambda>v. v < 0) ?u) idx
                    then entry (pointwise (\<lambda>v. 0) x) idx else entry x idx)
          = tab (shape x) (entry x)"
    proof (rule tab_cong)
      fix idx assume v: "valid (shape x) idx"
      then have "entry ?u idx \<in> set (rng (shape x))"
        using entry_in_elems [OF u, of idx] by simp
      then have "\<not> entry ?u idx < 0"
        using rng by (auto simp: not_less)
      with v show "(if entry (pointwise (\<lambda>v. v < 0) ?u) idx
                    then entry (pointwise (\<lambda>v. 0) x) idx else entry x idx) = entry x idx"
        by simp
    qed
    with x show ?thesis by (simp add: tab_entry)
  qed
  have one: "pointwise (\<lambda>v. v * 1) x = x"
    using x by (simp add: pointwise_def tab_entry)
  show ?thesis
    using keep one
    by (simp add: dropout_def ref_random_uniform_def ref_where_def py_truediv_def)
qed

theorem dropout_zero_and_one_witness:
  "dropout (ref half_rng float32) \<lparr> shape = [2], elems = [3, 4] \<rparr> 0 True
     = Inr \<lparr> shape = [2], elems = [3, 4] \<rparr> \<and>
   dropout (ref half_rng float32) \<lparr> shape = [2], elems = [3, 4] \<rparr> 1 True
     = Inl ZeroDivisionError"
proof -
  have r: "\<forall>sh. length (half_rng sh) = prod_list sh \<and> (\<forall>u \<in> set (half_rng sh). 0 \<le> u \<and> u < 1)"
    by (simp add: half_rng_def)
  have x: "well_shaped \<lparr> shape = [2], elems = [3, 4 :: real] \<rparr>"
    by (simp add: well_shaped_def)
  show ?thesis
    using dropout_zero_and_one [OF r x] by simp
qed


section \<open>Properties of scaled dot-product attention\<close>

lemma attention_ref:
  assumes q: "shape q = bs @ [Q, F]" and k: "shape k = bs @ [K, F]"
    and v: "shape v = bs @ [K, Fv]"
  shows "scaled_dot_product_attention (ref rng dt) q k v scale None =
           Inr (attention_formula q k v scale None)"
    and "shape m = bs @ [Q, K] \<Longrightarrow> np_finfo_max dt = Inr fmax \<Longrightarrow>
         scaled_dot_product_attention (ref rng dt) q k v scale (Some m) =
           Inr (attention_formula q k v scale (Some (m, - fmax)))"
proof -
  let ?n = "length bs"
  let ?qk = "tab (bs @ [Q, K])
     (\<lambda>idx. dot_qk q k (take ?n idx) (idx ! ?n) (idx ! Suc ?n))"
  have sim_entry: "entry (pointwise (\<lambda>v. v * scale) ?qk) (b @ [i, j]) = scale * dot_qk q k b i j"
    if "valid bs b" "i < Q" "j < K" for b i j
    using that valid_length [OF that(1)] by (simp add: nth_append)
  have final: "tab (bs @ [Q, Fv])
       (\<lambda>idx. \<Sum>j<K. entry (tab (bs @ [Q, K])
                   (\<lambda>idx. exp (entry s idx) / (\<Sum>j<K. exp (entry s (idx[Suc ?n := j])))))
                 (take ?n idx @ [idx ! ?n, j])
               * entry v (take ?n idx @ [j, idx ! Suc ?n]))
     = attention_formula q k v scale masking"
    if s: "\<And>b i j. valid bs b \<Longrightarrow> i < Q \<Longrightarrow> j < K \<Longrightarrow>
              entry s (b @ [i, j]) = similarity q k scale masking b i j"
    for s masking
  proof -
    have "tab (bs @ [Q, Fv])
       (\<lambda>idx. \<Sum>j<K. entry (tab (bs @ [Q, K])
                   (\<lambda>idx. exp (entry s idx) / (\<Sum>j<K. exp (entry s (idx[Suc ?n := j])))))
                 (take ?n idx @ [idx ! ?n, j])
               * entry v (take ?n idx @ [j, idx ! Suc ?n]))
      = tab (bs @ [Q, Fv])
        (\<lambda>idx. \<Sum>j<K. attention_weight q k scale masking (take ?n idx) (idx ! ?n) j
                  * entry v (take ?n idx @ [j, idx ! Suc ?n]))"
    proof (rule tab_cong)
      fix idx assume "valid (bs @ [Q, Fv]) idx"
      then obtain b i f where idx: "idx = b @ [i, f]" "valid bs b" "i < Q" "f < Fv"
        "length b = ?n" by (rule valid_two)
      have w: "entry (tab (bs @ [Q, K])
                   (\<lambda>idx. exp (entry s idx) / (\<Sum>j<K. exp (entry s (idx[Suc ?n := j])))))
                 (b @ [i, j]) = attention_weight q k scale masking b i j"
        if "j < K" for j
      proof -
        have "(\<Sum>j'<K. exp (entry s ((b @ [i, j])[Suc ?n := j'])))
              = (\<Sum>j'<K. exp (similarity q k scale masking b i j'))"
          using idx by (intro sum.cong) (simp_all add: list_update_append s)
        then show ?thesis
          using idx that k by (simp add: attention_weight_def s)
      qed
      show "(\<Sum>j<K. entry (tab (bs @ [Q, K])
                   (\<lambda>idx. exp (entry s idx) / (\<Sum>j<K. exp (entry s (idx[Suc ?n := j])))))
                 (take ?n idx @ [idx ! ?n, j])
               * entry v (take ?n idx @ [j, idx ! Suc ?n]))
          = (\<Sum>j<K. attention_weight q k scale masking (take ?n idx) (idx ! ?n) j
                  * entry v (take ?n idx @ [j, idx ! Suc ?n]))"
        using idx by (intro sum.cong) (simp_all add: nth_append w del: entry_tab)
    qed
    then show ?thesis
      using q k v by (simp add: attention_formula_def nth_append)
  qed
  show "scaled_dot_product_attention (ref rng dt) q k v scale None =
           Inr (attention_formula q k v scale None)"
    using final [of "pointwise (\<lambda>v. v * scale) ?qk" None] sim_entry
    by (simp add: scaled_dot_product_attention_def einsum_qk [OF q k] softmax_last
        einsum_av [OF _ v] similarity_def)
  assume m: "shape m = bs @ [Q, K]" and fmax: "np_finfo_max dt = Inr fmax"
  let ?sim = "pointwise (\<lambda>v. v * scale) ?qk"
  let ?masked = "tab (bs @ [Q, K]) (\<lambda>idx. if entry (pointwise Not m) idx
        then entry (pointwise (\<lambda>v. v * fmax) (pointwise uminus (pointwise (\<lambda>v. 1) ?sim))) idx
        else entry ?sim idx)"
  have masked_entry: "entry ?masked (b @ [i, j]) = similarity q k scale (Some (m, - fmax)) b i j"
    if "valid bs b" "i < Q" "j < K" for b i j
    using that valid_length [OF that(1)] m sim_entry [OF that]
    by (simp add: similarity_def)
  show "scaled_dot_product_attention (ref rng dt) q k v scale (Some m) =
           Inr (attention_formula q k v scale (Some (m, - fmax)))"
    using final [of ?masked "Some (m, - fmax)"] masked_entry m fmax
    by (simp add: scaled_dot_product_attention_def einsum_qk [OF q k] softmax_last
        einsum_av [OF _ v] ref_where_def)
qed

text \<open>
  The formula on the sample: the similarities are \<open>1/2\<close> and \<open>1\<close>, so the two values are
  weighted by the softmax of \<open>(1/2, 1)\<close>; with the mask, by that of \<open>(1/2, lowest)\<close>.
\<close>

lemmas attention_sample_defs = sample_q_def sample_k_def sample_v_def sample_mask_def

lemma sum_2: "(\<Sum>j<2. f j) = f 0 + f (1::nat)" for f :: "nat \<Rightarrow> real"
  by (simp add: numeral_2_eq_2)

lemma sample_dot_qk:
  "dot_qk sample_q sample_k [0] 0 0 = 1" "dot_qk sample_q sample_k [0] 0 (Suc 0) = 2"
  by (simp_all add: dot_qk_def sum_2 entry_def attention_sample_defs)


lemma attention_sample_shapes:
  "shape sample_q = [1, 1, 2]" "shape sample_k = [1, 2, 2]" "shape sample_v = [1, 2, 1]"
  "shape sample_mask = [1, 1, 2]"
  by (simp_all add: attention_sample_defs)

lemma sample_v_entries: "entry sample_v [0, 0, 0] = 3" "entry sample_v [0, Suc 0, 0] = 6"
  by (simp_all add: entry_def sample_v_def)

lemma sample_mask_entries:
  "entry sample_mask [0, 0, 0] = True" "entry sample_mask [0, 0, Suc 0] = False"
  by (simp_all add: entry_def sample_mask_def)

lemma sample_similarity:
  "similarity sample_q sample_k (1 / 2) None [0] 0 0 = 1 / 2"
  "similarity sample_q sample_k (1 / 2) None [0] 0 (Suc 0) = 1"
  "similarity sample_q sample_k (1 / 2) (Some (sample_mask, lowest)) [0] 0 0 = 1 / 2"
  "similarity sample_q sample_k (1 / 2) (Some (sample_mask, lowest)) [0] 0 (Suc 0) = lowest"
  by (simp_all add: similarity_def sample_dot_qk sample_mask_entries)

lemma sample_weight:
  "attention_weight sample_q sample_k (1 / 2) None [0] 0 0 = exp (1 / 2) / (exp (1 / 2) + exp 1)"
  "attention_weight sample_q sample_k (1 / 2) None [0] 0 (Suc 0) = exp 1 / (exp (1 / 2) + exp 1)"
  "attention_weight sample_q sample_k (1 / 2) (Some (sample_mask, lowest)) [0] 0 0
     = exp (1 / 2) / (exp (1 / 2) + exp lowest)"
  "attention_weight sample_q sample_k (1 / 2) (Some (sample_mask, lowest)) [0] 0 (Suc 0)
     = exp lowest / (exp (1 / 2) + exp lowest)"
  by (simp_all add: attention_weight_def attention_sample_shapes sum_2 sample_similarity)

lemma attention_value_plain:
  "attention_formula sample_q sample_k sample_v (1 / 2) None
   = \<lparr> shape = [1, 1, 1],
       elems = [exp (1 / 2) / (exp (1 / 2) + exp 1) * 3 + exp 1 / (exp (1 / 2) + exp 1) * 6] \<rparr>"
  by (simp add: attention_formula_def attention_sample_shapes tab_def sum_2 sample_weight sample_v_entries)

lemma attention_value_masked:
  "attention_formula sample_q sample_k sample_v (1 / 2) (Some (sample_mask, lowest))
   = \<lparr> shape = [1, 1, 1],
       elems = [exp (1 / 2) / (exp (1 / 2) + exp lowest) * 3
                + exp lowest / (exp (1 / 2) + exp lowest) * 6] \<rparr>"
  by (simp add: attention_formula_def attention_sample_shapes tab_def sum_2 sample_weight sample_v_entries)




section \<open>Properties of the LSTM update\<close>

subsection \<open>The input projections\<close>

lemma flat_index_append:
  "length b = length bs \<Longrightarrow>
     flat_index (bs @ sh) (b @ js) = flat_index bs b * prod_list sh + flat_index sh js"
proof (induction bs b rule: flat_index.induct)
  case (1 n ns i js')
  then show ?case by (simp add: algebra_simps)
qed simp_all

lemma map_nat_int [simp]: "map (nat \<circ> int) bs = bs"
  by (induction bs) auto

lemma map_if_int [simp]: "map ((\<lambda>n. if n = - 1 then c else nat n) \<circ> int) bs = bs"
  by (induction bs) auto

lemma filter_map_int [simp]:
  "filter (\<lambda>n. n \<noteq> - 1) (map int bs) = map int bs"
  "filter (\<lambda>n. n = - 1) (map int bs) = []"
  "list_ex (\<lambda>n. n < - 1) (map int bs) = False"
  "map (\<lambda>n. if n = - 1 then c else nat n) (map int bs) = bs"
  "- 1 \<notin> int ` set bs"
  by (induction bs) auto

lemma reshape_flat:
  assumes "shape x = bs @ [T, I]" "0 < I"
  shows "ref_reshape x [- 1, int I] = Inr \<lparr> shape = [prod_list bs * T, I], elems = elems x \<rparr>"
  using assms by (simp add: ref_reshape_def)

lemma reshape_back:
  assumes "shape y = [prod_list bs * T, C]" "0 < prod_list bs" "0 < T"
  shows "ref_reshape y (map int bs @ [int T, - 1]) = Inr \<lparr> shape = bs @ [T, C], elems = elems y \<rparr>"
  using assms by (simp add: ref_reshape_def Let_def)


lemma zip_map_same: "zip (map f xs) (map g xs) = map (\<lambda>x. (f x, g x)) xs"
  by (induction xs) auto

lemma upt_4: "[0..<4] = [0, 1, 2, 3]"
  by (simp add: upt_rec)

lemma valid_one:
  assumes "valid (bs @ [n]) idx"
  obtains b u where "idx = b @ [u]" "valid bs b" "u < n" "length b = length bs"
proof -
  from assms obtain b js where 1: "idx = b @ js" "valid bs b" "valid [n] js"
    "length b = length bs" by (rule valid_appendE)
  from 1(3) obtain u where "js = [u]" "u < n"
    by (auto simp: valid_def list_all2_Cons2)
  with 1 that show thesis by blast
qed

lemma flat_row_less:
  assumes "valid bs b" "t < T"
  shows "flat_index bs b * T + t < prod_list bs * T"
proof -
  have "flat_index bs b * T + t < Suc (flat_index bs b) * T"
    using assms(2) by simp
  also have "\<dots> \<le> prod_list bs * T"
    using flat_index_less [OF assms(1)] by (intro mult_le_mono1) simp
  finally show ?thesis .
qed

lemma gate_col_less: "g < 4 \<Longrightarrow> u < out \<Longrightarrow> g * out + u < 4 * out" for g u out :: nat
proof -
  assume "g < 4" "u < out"
  then have "g * out + u < Suc g * out" by simp
  also have "\<dots> \<le> 4 * out" using \<open>g < 4\<close> by (intro mult_le_mono1) simp
  finally show ?thesis .
qed

lemma projected_entry:
  assumes x: "shape x = bs @ [T, I]" and W: "shape W = [I, C]"
    and b: "valid bs b" and t: "t < T" and c: "c < C"
  shows "entry \<lparr> shape = bs @ [T, C],
                  elems = elems (tab [prod_list bs * T, C]
                    (\<lambda>idx. entry (tab [prod_list bs * T, C]
                       (\<lambda>idx. \<Sum>j<I. entry \<lparr> shape = [prod_list bs * T, I], elems = elems x \<rparr>
                                         (butlast idx @ [j]) * entry W [j, last idx])) idx
                          + beta (last idx))) \<rparr> (b @ [t, c])
         = (\<Sum>j<I. entry x (b @ [t, j]) * entry W [j, c]) + beta c"
proof -
  let ?r = "flat_index bs b * T + t"
  have lb: "length b = length bs" using b by (rule valid_length)
  have r: "?r < prod_list bs * T" using b t by (rule flat_row_less)
  have v: "valid [prod_list bs * T, C] [?r, c]" using r c by simp
  have fi: "flat_index (bs @ [T, C]) (b @ [t, c]) = flat_index [prod_list bs * T, C] [?r, c]"
    using lb by (simp add: flat_index_append algebra_simps)
  have xe: "entry \<lparr> shape = [prod_list bs * T, I], elems = elems x \<rparr> [?r, j] = entry x (b @ [t, j])"
    for j
    using lb x by (simp add: entry_def flat_index_append algebra_simps)
  let ?g = "\<lambda>idx. entry (tab [prod_list bs * T, C]
                       (\<lambda>idx. \<Sum>j<I. entry \<lparr> shape = [prod_list bs * T, I], elems = elems x \<rparr>
                                         (butlast idx @ [j]) * entry W [j, last idx])) idx
                          + beta (last idx)"
  have "entry \<lparr> shape = bs @ [T, C], elems = elems (tab [prod_list bs * T, C] ?g) \<rparr> (b @ [t, c])
        = ?g [?r, c]"
    using entry_tab [OF v, of ?g] by (simp add: entry_def fi)
  also have "\<dots> = (\<Sum>j<I. entry x (b @ [t, j]) * entry W [j, c]) + beta c"
    using r c by (simp add: xe)
  finally show ?thesis .
qed

lemma lstm_inputs_ref:
  assumes x: "shape x = bs @ [T, I]" and W: "shape W = [I, 4 * out]"
    and bias: "case bias of None \<Rightarrow> True | Some bv \<Rightarrow> shape bv = [4 * out]"
    and pos: "0 < I" "0 < prod_list bs" "0 < T"
  shows "lstm_inputs (ref rng dt) x W bias =
           Inr (map (\<lambda>t. (input_slice x W bias 0 t, input_slice x W bias 1 t,
                           input_slice x W bias 2 t, input_slice x W bias 3 t)) [0..<T])"
proof -
  let ?n = "length bs"
  let ?N = "prod_list bs * T"
  let ?beta = "\<lambda>c. case bias of None \<Rightarrow> 0 | Some bv \<Rightarrow> entry bv [c]"
  define xf where "xf = \<lparr> shape = [?N, I], elems = elems x \<rparr>"
  define m where "m = tab [?N, 4 * out]
     (\<lambda>idx. \<Sum>j<I. entry xf (butlast idx @ [j]) * entry W [j, last idx])"
  define s where "s = tab [?N, 4 * out] (\<lambda>idx. entry m idx + ?beta (last idx))"
  define Wi_x where "Wi_x = \<lparr> shape = bs @ [T, 4 * out], elems = elems s \<rparr>"
  define part where
    "part k = tab (bs @ [T, out]) (\<lambda>idx. entry Wi_x (idx[Suc ?n := k * out + idx ! Suc ?n]))"
    for k
  define slice where
    "slice k t = tab (bs @ [out]) (\<lambda>idx. entry (part k) (take ?n idx @ [t] @ drop ?n idx))"
    for k t
  have fl: "ref_reshape x [- 1, int I] = Inr xf"
    using reshape_flat [OF x pos(1)] by (simp add: xf_def)
  have mm: "ref_matmul xf W = Inr m"
    using W by (simp add: ref_matmul_def m_def xf_def)
  have add: "(case bias of Some b \<Rightarrow> array_add (ref rng dt) m b
              | None \<Rightarrow> array_add_scalar (ref rng dt) m 0) = Inr s"
  proof (cases bias)
    case None
    then show ?thesis by (simp add: pointwise_def s_def m_def)
  next
    case (Some bv)
    with bias have "shape bv = [4 * out]" by simp
    with Some show ?thesis by (simp add: ref_add_def s_def m_def)
  qed
  have rs: "ref_reshape s (map int bs @ [int T, - 1]) = Inr Wi_x"
    using reshape_back [of s bs T "4 * out"] pos by (simp add: s_def Wi_x_def)
  have sp: "ref_split Wi_x 4 (- 1) = Inr [part 0, part 1, part 2, part 3]"
    by (simp add: ref_split_def upt_4 list_update_append nth_append Let_def part_def Wi_x_def)
  have us: "ref_unstack (part k) (- 2) = Inr (map (slice k) [0..<T])" for k
    by (simp add: ref_unstack_def nth_append part_def slice_def)
  have slice: "slice k t = input_slice x W bias k t" if "k < 4" "t < T" for k t
  proof -
    have "slice k t = tab (bs @ [out]) (\<lambda>idx. gate_input x W bias k t (butlast idx) (last idx))"
      unfolding slice_def
    proof (rule tab_cong)
      fix idx assume "valid (bs @ [out]) idx"
      then obtain b u where idx: "idx = b @ [u]" "valid bs b" "u < out" "length b = ?n"
        by (rule valid_one)
      have c: "k * out + u < 4 * out" using that(1) idx(3) by (rule gate_col_less)
      have "entry (part k) (take ?n idx @ [t] @ drop ?n idx) = entry Wi_x (b @ [t, k * out + u])"
        using idx that by (simp add: nth_append list_update_append part_def)
      also have "\<dots> = (\<Sum>j<I. entry x (b @ [t, j]) * entry W [j, k * out + u])
                        + ?beta (k * out + u)"
        using projected_entry [OF x W idx(2) that(2) c, of ?beta]
        by (simp add: Wi_x_def s_def m_def xf_def)
      also have "\<dots> = gate_input x W bias k t (butlast idx) (last idx)"
        using idx W by (simp add: gate_input_def)
      finally show "entry (part k) (take ?n idx @ [t] @ drop ?n idx)
                    = gate_input x W bias k t (butlast idx) (last idx)" .
    qed
    then show ?thesis
      using x W by (simp add: input_slice_def)
  qed
  have "lstm_inputs (ref rng dt) x W bias =
          Inr (zip (map (slice 0) [0..<T]) (zip (map (slice 1) [0..<T])
                 (zip (map (slice 2) [0..<T]) (map (slice 3) [0..<T]))))"
    using x by (simp add: lstm_inputs_def fl mm add rs sp us nth_append)
  also have "\<dots> = Inr (map (\<lambda>t. (slice 0 t, slice 1 t, slice 2 t, slice 3 t)) [0..<T])"
    by (simp add: zip_map_same)
  also have "\<dots> = Inr (map (\<lambda>t. (input_slice x W bias 0 t, input_slice x W bias 1 t,
                           input_slice x W bias 2 t, input_slice x W bias 3 t)) [0..<T])"
    using slice by simp
  finally show ?thesis .
qed


subsection \<open>One iteration of the loop\<close>

lemma shape_input_slice:
  "shape x = bs @ [T, I] \<Longrightarrow> shape W = [I, 4 * out] \<Longrightarrow>
     shape (input_slice x W bias g t) = bs @ [out]"
  by (simp add: input_slice_def)

lemma entry_input_slice:
  "shape x = bs @ [T, I] \<Longrightarrow> shape W = [I, 4 * out] \<Longrightarrow> valid (bs @ [out]) idx \<Longrightarrow>
     entry (input_slice x W bias g t) idx = gate_input x W bias g t (butlast idx) (last idx)"
  by (simp add: input_slice_def)

lemma lstm_step_ref:
  assumes x: "shape x = bs @ [T, I]" and W: "shape W = [I, 4 * out]"
    and Wh: "shape Wh = [out, 4 * out]"
    and rb: "case recurrent_bias of None \<Rightarrow> True | Some bv \<Rightarrow> shape bv = [4 * out]"
    and h: "shape h = bs @ [out]" and c: "shape c = bs @ [out]"
  shows "lstm_loop (ref rng dt) Wh recurrent_bias
           ((input_slice x W bias 0 t, input_slice x W bias 1 t,
             input_slice x W bias 2 t, input_slice x W bias 3 t) # rest) (h, c, acc)
         = lstm_loop (ref rng dt) Wh recurrent_bias rest
             (fst (lstm_cell x W Wh bias recurrent_bias t (h, c)),
              snd (lstm_cell x W Wh bias recurrent_bias t (h, c)),
              acc @ [\<lparr> shape = bs @ [1, out],
                       elems = elems (fst (lstm_cell x W Wh bias recurrent_bias t (h, c))) \<rparr>])"
proof -
  let ?n = "length bs"
  let ?S = "bs @ [out]"
  let ?rho = "\<lambda>c. case recurrent_bias of None \<Rightarrow> 0 | Some bv \<Rightarrow> entry bv [c]"
  let ?X = "\<lambda>g. input_slice x W bias g t"
  define mh where "mh = tab (bs @ [4 * out])
     (\<lambda>idx. \<Sum>j<out. entry h (butlast idx @ [j]) * entry Wh [j, last idx])"
  define sb where "sb = tab (bs @ [4 * out]) (\<lambda>idx. entry mh idx + ?rho (last idx))"
  define p where
    "p k = tab ?S (\<lambda>idx. entry sb (idx[?n := k * out + idx ! ?n]))" for k
  define a where "a k = tab ?S (\<lambda>idx. entry (?X k) idx + entry (p k) idx)" for k
  define pre where "pre g idx = gate_input x W bias g t (butlast idx) (last idx)
                         + gate_recurrent h Wh recurrent_bias g (butlast idx) (last idx)"
    for g idx
  define fc where "fc = tab ?S (\<lambda>idx. entry (pointwise sigmoid (a (Suc 0))) idx * entry c idx)"
  define ig where "ig = tab ?S (\<lambda>idx. entry (pointwise sigmoid (a 0)) idx
                                       * entry (pointwise tanh (a 2)) idx)"
  define ct where "ct = tab ?S (\<lambda>idx. entry fc idx + entry ig idx)"
  define ht where "ht = tab ?S (\<lambda>idx. entry (pointwise sigmoid (a 3)) idx
                                       * entry (pointwise tanh ct) idx)"
  have mm: "ref_matmul h Wh = Inr mh"
    using h Wh by (simp add: ref_matmul_def mh_def)
  have add: "(case recurrent_bias of Some b \<Rightarrow> array_add (ref rng dt) mh b
              | None \<Rightarrow> array_add_scalar (ref rng dt) mh 0) = Inr sb"
  proof (cases recurrent_bias)
    case None
    then show ?thesis by (simp add: pointwise_def sb_def mh_def)
  next
    case (Some bv)
    with rb have bv: "shape bv = [4 * out]" by simp
    show ?thesis
    proof (cases "bs = []")
      case True
      have "tab [4 * out] (\<lambda>idx. entry mh idx + entry bv idx)
            = tab [4 * out] (\<lambda>idx. entry mh idx + entry bv [last idx])"
        by (rule tab_cong) (auto simp: valid_def list_all2_Cons2)
      with True Some bv show ?thesis
        by (simp add: ref_add_def sb_def mh_def)
    next
      case False
      with Some bv show ?thesis
        by (simp add: ref_add_def sb_def mh_def)
    qed
  qed
  have sp: "ref_split sb 4 (- 1) = Inr [p 0, p 1, p 2, p 3]"
    by (simp add: ref_split_def upt_4 nth_append Let_def p_def sb_def)
  have sa: "shape (a k) = ?S" for k by (simp add: a_def)
  have ad: "ref_add (?X k) (p k) = Inr (a k)" for k
    using shape_input_slice [OF x W] by (simp add: ref_add_def a_def p_def)
  have m1: "pointwise2 times (pointwise sigmoid (a k)) c = Inr
              (tab ?S (\<lambda>idx. entry (pointwise sigmoid (a k)) idx * entry c idx))" for k
    using c by (simp add: sa)
  have m2: "pointwise2 times (pointwise sigmoid (a k)) (pointwise f (a k')) = Inr
              (tab ?S (\<lambda>idx. entry (pointwise sigmoid (a k)) idx * entry (pointwise f (a k')) idx))"
    for k k' f
    by (simp add: sa)
  have m3: "pointwise2 times (pointwise sigmoid (a k)) (pointwise f ct) = Inr
              (tab ?S (\<lambda>idx. entry (pointwise sigmoid (a k)) idx * entry (pointwise f ct) idx))"
    for k f
    by (simp add: sa ct_def)
  have a3: "ref_add fc ig = Inr ct"
    by (simp add: ref_add_def fc_def ig_def ct_def)
  have ex: "ref_expand_dims ht (- 2) = Inr \<lparr> shape = bs @ [1, out], elems = elems ht \<rparr>"
    by (simp add: ref_expand_dims_def ht_def)
  have run: "lstm_loop (ref rng dt) Wh recurrent_bias
           ((?X 0, ?X 1, ?X 2, ?X 3) # rest) (h, c, acc)
         = lstm_loop (ref rng dt) Wh recurrent_bias rest
             (ht, ct, acc @ [\<lparr> shape = bs @ [1, out], elems = elems ht \<rparr>])"
    by (simp add: mm add sp ad m1 m2 m3 a3 ex
          fc_def [symmetric] ig_def [symmetric] ht_def [symmetric]
          del: pointwise2_same)
  have ae: "entry (a k) idx = pre k idx" if "k < 4" "valid ?S idx" for k idx
  proof -
    from that(2) obtain b u where idx: "idx = b @ [u]" "valid bs b" "u < out" "length b = ?n"
      by (rule valid_one)
    have col: "k * out + u < 4 * out" using that(1) idx(3) by (rule gate_col_less)
    have "entry (p k) idx = entry sb (b @ [k * out + u])"
      using idx that by (simp add: p_def nth_append list_update_append)
    also have "\<dots> = (\<Sum>j<out. entry h (b @ [j]) * entry Wh [j, k * out + u]) + ?rho (k * out + u)"
      using idx col by (simp add: sb_def mh_def split: option.split)
    also have "\<dots> = gate_recurrent h Wh recurrent_bias k (butlast idx) (last idx)"
      using idx Wh by (simp add: gate_recurrent_def)
    finally show ?thesis
      using that entry_input_slice [OF x W that(2)] by (simp add: a_def pre_def)
  qed
  have ct: "ct = snd (lstm_cell x W Wh bias recurrent_bias t (h, c))"
  proof -
    have "ct = tab ?S (\<lambda>idx. sigmoid (pre 1 idx) * entry c idx
                              + sigmoid (pre 0 idx) * tanh (pre 2 idx))"
      unfolding ct_def
      by (rule tab_cong) (simp add: fc_def ig_def sa ae)
    then show ?thesis
      using x W by (simp add: lstm_cell_def Let_def pre_def)
  qed
  have ht: "ht = fst (lstm_cell x W Wh bias recurrent_bias t (h, c))"
  proof -
    have "ht = tab ?S (\<lambda>idx. sigmoid (pre 3 idx) * tanh (entry ct idx))"
      unfolding ht_def
      by (rule tab_cong) (simp add: sa ae ct_def)
    also have "ct = tab ?S (\<lambda>idx. sigmoid (pre 1 idx) * entry c idx
                              + sigmoid (pre 0 idx) * tanh (pre 2 idx))"
      unfolding ct_def
      by (rule tab_cong) (simp add: fc_def ig_def sa ae)
    finally show ?thesis
      using x W by (simp add: lstm_cell_def Let_def pre_def)
  qed
  show ?thesis
    using run by (simp only: ct ht)
qed


subsection \<open>The whole loop and the concatenation\<close>

declare lstm_states.simps(2) [simp del]

lemma shape_lstm_states:
  assumes "shape x = bs @ [T, I]" "shape W = [I, 4 * out]"
    "shape h0 = bs @ [out]" "shape c0 = bs @ [out]"
  shows "shape (fst (lstm_states x W Wh bias rb h0 c0 t)) = bs @ [out]"
    and "shape (snd (lstm_states x W Wh bias rb h0 c0 t)) = bs @ [out]"
  using assms by (cases t; simp add: lstm_cell_def Let_def lstm_states.simps(2))+

lemma lstm_loop_ref:
  assumes x: "shape x = bs @ [T, I]" and W: "shape W = [I, 4 * out]"
    and Wh: "shape Wh = [out, 4 * out]"
    and rb: "case recurrent_bias of None \<Rightarrow> True | Some bv \<Rightarrow> shape bv = [4 * out]"
    and h0: "shape h0 = bs @ [out]" and c0: "shape c0 = bs @ [out]"
  shows "t0 \<le> t1 \<Longrightarrow>
         lstm_loop (ref rng dt) Wh recurrent_bias
           (map (\<lambda>t. (input_slice x W bias 0 t, input_slice x W bias 1 t,
                       input_slice x W bias 2 t, input_slice x W bias 3 t)) [t0..<t1])
           (fst (lstm_states x W Wh bias recurrent_bias h0 c0 t0),
            snd (lstm_states x W Wh bias recurrent_bias h0 c0 t0), acc)
         = Inr (fst (lstm_states x W Wh bias recurrent_bias h0 c0 t1),
                snd (lstm_states x W Wh bias recurrent_bias h0 c0 t1),
                acc @ map (\<lambda>s. \<lparr> shape = bs @ [1, out],
                    elems = elems (fst (lstm_states x W Wh bias recurrent_bias h0 c0 (Suc s))) \<rparr>)
                  [t0..<t1])"
proof (induction "t1 - t0" arbitrary: t0 acc)
  case 0
  then show ?case by simp
next
  case (Suc d)
  then have lt: "t0 < t1" and d: "d = t1 - Suc t0" and le: "Suc t0 \<le> t1" by simp_all
  let ?st = "lstm_states x W Wh bias recurrent_bias h0 c0"
  let ?F = "\<lambda>t. (input_slice x W bias 0 t, input_slice x W bias 1 t,
                  input_slice x W bias 2 t, input_slice x W bias 3 t)"
  let ?E = "\<lambda>s. \<lparr> shape = bs @ [1, out], elems = elems (fst (?st (Suc s))) \<rparr>"
  have step: "lstm_loop (ref rng dt) Wh recurrent_bias (?F t0 # rest)
           (fst (?st t0), snd (?st t0), acc)
         = lstm_loop (ref rng dt) Wh recurrent_bias rest
             (fst (?st (Suc t0)), snd (?st (Suc t0)), acc @ [?E t0])" for rest
    using lstm_step_ref [OF x W Wh rb shape_lstm_states [OF x W h0 c0]]
    by (simp add: lstm_states.simps(2))
  have "lstm_loop (ref rng dt) Wh recurrent_bias (map ?F [t0..<t1])
           (fst (?st t0), snd (?st t0), acc)
        = lstm_loop (ref rng dt) Wh recurrent_bias (?F t0 # map ?F [Suc t0..<t1])
           (fst (?st t0), snd (?st t0), acc)"
    using lt by (simp only: upt_conv_Cons list.map)
  also have "\<dots> = lstm_loop (ref rng dt) Wh recurrent_bias (map ?F [Suc t0..<t1])
             (fst (?st (Suc t0)), snd (?st (Suc t0)), acc @ [?E t0])"
    by (rule step)
  also have "\<dots> = Inr (fst (?st t1), snd (?st t1), (acc @ [?E t0]) @ map ?E [Suc t0..<t1])"
    by (rule Suc.hyps(1) [OF d le])
  also have "(acc @ [?E t0]) @ map ?E [Suc t0..<t1] = acc @ map ?E [t0..<t1]"
    using lt by (simp add: upt_conv_Cons)
  finally show ?case .
qed

lemma locate_ones: "t < n \<Longrightarrow> locate (replicate n (Suc 0)) t = (t, 0)"
proof (induction n arbitrary: t)
  case 0
  then show ?case by simp
next
  case (Suc n)
  then show ?case by (cases t) auto
qed

lemma concat_hidden:
  assumes H: "\<And>s. shape (H s) = bs @ [out]" and T: "0 < T"
  shows "ref_concat (map (\<lambda>s. \<lparr> shape = bs @ [1, out], elems = elems (H s) \<rparr>) [0..<T]) (- 2)
         = Inr (tab (bs @ [T, out])
             (\<lambda>idx. entry (H (idx ! length bs)) (take (length bs) idx @ [idx ! Suc (length bs)])))"
proof -
  let ?n = "length bs"
  let ?E = "\<lambda>s. \<lparr> shape = bs @ [1, out], elems = elems (H s) \<rparr>"
  let ?xs = "map ?E [0..<T]"
  obtain x0 rest where xs: "?xs = x0 # rest" and x0: "shape x0 = bs @ [1, out]"
    using T by (cases "?xs") auto
  have all: "list_all (\<lambda>x. (shape x)[?n := 0] = (bs @ [1, out])[?n := 0]) ?xs"
    by (simp add: list_all_iff)
  have sizes: "map (\<lambda>x. shape x ! ?n) ?xs = replicate T (Suc 0)"
    by (simp add: comp_def map_replicate_const nth_append)
  have "ref_concat ?xs (- 2) = Inr (tab (bs @ [T, out])
          (\<lambda>idx. case locate (replicate T (Suc 0)) (idx ! ?n) of
                    (k, j) \<Rightarrow> entry (?xs ! k) (idx[?n := j])))"
    unfolding ref_concat_def xs [symmetric, THEN arg_cong, of "\<lambda>l. l"]
    using all sizes x0
    apply (simp only: xs list.case)
    apply (simp only: xs [symmetric] x0 length_append norm_axis_neg2 list.size
        option.case Let_def)
    apply (simp add: list_update_append sum_list_replicate)
    done
  also have "tab (bs @ [T, out])
          (\<lambda>idx. case locate (replicate T (Suc 0)) (idx ! ?n) of
                    (k, j) \<Rightarrow> entry (?xs ! k) (idx[?n := j]))
       = tab (bs @ [T, out])
             (\<lambda>idx. entry (H (idx ! ?n)) (take ?n idx @ [idx ! Suc ?n]))"
  proof (rule tab_cong)
    fix idx assume "valid (bs @ [T, out]) idx"
    then obtain b t u where idx: "idx = b @ [t, u]" "valid bs b" "t < T" "u < out"
      "length b = ?n" by (rule valid_two)
    have "entry (?E t) (b @ [0, u]) = entry (H t) (b @ [u])"
      using idx H [of t] by (simp add: entry_def flat_index_append)
    then show "(case locate (replicate T (Suc 0)) (idx ! ?n) of
                    (k, j) \<Rightarrow> entry (?xs ! k) (idx[?n := j]))
               = entry (H (idx ! ?n)) (take ?n idx @ [idx ! Suc ?n])"
      using idx by (simp add: locate_ones nth_append list_update_append)
  qed
  finally show ?thesis .
qed

lemma lstm_update_ref:
  assumes x: "shape x = bs @ [T, I]" and W: "shape W = [I, 4 * out]"
    and Wh: "shape Wh = [out, 4 * out]"
    and bias: "case bias of None \<Rightarrow> True | Some bv \<Rightarrow> shape bv = [4 * out]"
    and rb: "case recurrent_bias of None \<Rightarrow> True | Some bv \<Rightarrow> shape bv = [4 * out]"
    and h0: "shape h0 = bs @ [out]" and c0: "shape c0 = bs @ [out]"
    and pos: "0 < I" "0 < prod_list bs" "0 < T"
  shows "lstm_update (ref rng dt) x h0 c0 W Wh bias recurrent_bias
         = Inr (lstm_formula x h0 c0 W Wh bias recurrent_bias)"
proof -
  let ?st = "lstm_states x W Wh bias recurrent_bias h0 c0"
  have loop: "lstm_loop (ref rng dt) Wh recurrent_bias
           (map (\<lambda>t. (input_slice x W bias 0 t, input_slice x W bias 1 t,
                       input_slice x W bias 2 t, input_slice x W bias 3 t)) [0..<T])
           (h0, c0, [])
         = Inr (fst (?st T), snd (?st T),
                map (\<lambda>s. \<lparr> shape = bs @ [1, out], elems = elems (fst (?st (Suc s))) \<rparr>) [0..<T])"
    using lstm_loop_ref [OF x W Wh rb h0 c0, of 0 T rng dt bias "[]"] by simp
  have cat: "ref_concat
       (map (\<lambda>s. \<lparr> shape = bs @ [1, out], elems = elems (fst (?st (Suc s))) \<rparr>) [0..<T]) (- 2)
     = Inr (tab (bs @ [T, out])
             (\<lambda>idx. entry (fst (?st (Suc (idx ! length bs))))
                       (take (length bs) idx @ [idx ! Suc (length bs)])))"
    using concat_hidden [of "\<lambda>s. fst (?st (Suc s))" bs out T]
      shape_lstm_states(1) [OF x W h0 c0] pos(3) by simp
  show ?thesis
    apply (simp only: lstm_update_def lstm_inputs_ref [OF x W bias pos] bind_exn_Inr Let_def
        loop prod.case ref_sel cat)
    apply (simp add: lstm_formula_def x W nth_append Let_def)
    done
qed


lemma lstm_loop_length:
  "lstm_loop A Wh rb slices (h, c, acc) = Inr (h', c', acc') \<Longrightarrow>
     length acc' = length acc + length slices"
proof (induction slices arbitrary: h c acc)
  case Nil
  then show ?case by simp
next
  case (Cons z zs)
  obtain zi zf zg zo where z: "z = (zi, zf, zg, zo)" by (cases z) auto
  from Cons.prems show ?case
    unfolding z
    by (auto simp: bind_exn_def Let_def split: sum.splits list.splits dest!: Cons.IH)
qed

lemma reshape_zero:
  "ref_reshape s (map int bs @ [0, - 1]) = Inl (ValueError ''cannot reshape array'')"
  by (simp add: ref_reshape_def)

lemma lstm_update_zero_steps_ref:
  assumes "shape x = bs @ [0, I]"
  shows "\<exists>e. lstm_inputs (ref rng dt) x W bias = Inl e \<and>
             lstm_update (ref rng dt) x h0 c0 W Wh bias rb = Inl e"
proof -
  have "\<exists>e. lstm_inputs (ref rng dt) x W bias = Inl e"
    using assms
    by (auto simp: lstm_inputs_def nth_append reshape_zero bind_exn_def
        split: sum.splits option.splits)
  then show ?thesis
    by (auto simp: lstm_update_def)
qed

subsection \<open>The recurrence on the sample\<close>

lemma lstm_sample_shapes:
  "shape sample_x = [1, 2, 2]" "shape (sample_state a) = [1, 1]"
  "shape sample_w = [2, 4]" "shape sample_wh = [1, 4]" "shape sample_bias = [4]"
  by (simp_all add: sample_x_def sample_state_def sample_w_def sample_wh_def sample_bias_def)

lemma entry_sample_state: "entry (sample_state a) [0, 0] = a"
  by (simp add: entry_def sample_state_def)

lemma sample_gate_input:
  "gate_input sample_x sample_w (Some sample_bias) 0 t [0] 0 = 0"
  "gate_input sample_x sample_w (Some sample_bias) (Suc 0) t [0] 0 = 0"
  "gate_input sample_x sample_w (Some sample_bias) 2 0 [0] 0 = - 2"
  "gate_input sample_x sample_w (Some sample_bias) 2 (Suc 0) [0] 0 = 2"
  "gate_input sample_x sample_w (Some sample_bias) 3 t [0] 0 = 0"
  by (simp_all add: gate_input_def lstm_sample_shapes sum_2)
     (simp_all add: entry_def sample_x_def sample_w_def sample_bias_def)

lemma sample_gate_recurrent:
  "gate_recurrent (sample_state a) sample_wh None 0 [0] 0 = 0"
  "gate_recurrent (sample_state a) sample_wh None (Suc 0) [0] 0 = 0"
  "gate_recurrent (sample_state a) sample_wh None 2 [0] 0 = a"
  "gate_recurrent (sample_state a) sample_wh None 3 [0] 0 = 0"
  by (simp_all add: gate_recurrent_def lstm_sample_shapes entry_sample_state)
     (simp_all add: entry_def sample_wh_def)

lemma sigmoid_0: "sigmoid 0 = 1 / 2"
  by (simp add: sigmoid_def)

lemma tab_unit: "tab [Suc 0, Suc 0] g = sample_state (g [0, 0])"
  by (simp add: tab_def sample_state_def)

lemma sample_cell:
  "lstm_cell sample_x sample_w sample_wh (Some sample_bias) None 0
     (sample_state a, sample_state c)
   = (sample_state (tanh (c / 2 + tanh (a - 2) / 2) / 2), sample_state (c / 2 + tanh (a - 2) / 2))"
  "lstm_cell sample_x sample_w sample_wh (Some sample_bias) None (Suc 0)
     (sample_state a, sample_state c)
   = (sample_state (tanh (c / 2 + tanh (a + 2) / 2) / 2), sample_state (c / 2 + tanh (a + 2) / 2))"
  by (simp_all add: lstm_cell_def Let_def lstm_sample_shapes tab_unit sample_gate_input
      sample_gate_recurrent sigmoid_0 entry_sample_state add.commute)

lemma sample_states:
  "lstm_states sample_x sample_w sample_wh (Some sample_bias) None
     (sample_state 2) (sample_state 4) (Suc 0)
   = (sample_state (tanh 2 / 2), sample_state 2)"
  "lstm_states sample_x sample_w sample_wh (Some sample_bias) None
     (sample_state 2) (sample_state 4) (Suc (Suc 0))
   = (sample_state (tanh (1 + tanh (tanh 2 / 2 + 2) / 2) / 2),
      sample_state (1 + tanh (tanh 2 / 2 + 2) / 2))"
  by (simp_all add: lstm_states.simps(2) sample_cell)

lemma lstm_formula_value:
  "lstm_formula sample_x (sample_state 2) (sample_state 4) sample_w sample_wh
     (Some sample_bias) None =
     (\<lparr> shape = [1, 2, 1],
        elems = [tanh 2 / 2, tanh (1 + tanh (tanh 2 / 2 + 2) / 2) / 2] \<rparr>,
      sample_state (1 + tanh (tanh 2 / 2 + 2) / 2))"
proof -
  have 2: "(2::nat) = Suc (Suc 0)" by simp
  have idx: "multi_indices [1, 2, 1] = [[0, 0, 0], [0, Suc 0, 0]]"
    by (simp add: upt_rec [of 0 2] upt_rec [of 1 2] upt_rec [of "Suc 0" 2])
  show ?thesis
    by (simp add: lstm_formula_def Let_def lstm_sample_shapes tab_def idx)
       (simp add: 2 sample_states entry_sample_state)
qed

lemma sample_last_cell:
  "snd (lstm_cell sample_x sample_w sample_wh (Some sample_bias) None (2 - 1)
     (lstm_states sample_x sample_w sample_wh (Some sample_bias) None
        (sample_state 2) (sample_state 4) (2 - 1)))
   = sample_state (1 + tanh (tanh 2 / 2 + 2) / 2)"
  by (simp add: sample_states sample_cell)


subsection \<open>The recurrence and the number of iterations\<close>







end
